theory Spec2Isabelle
  imports Main
begin

section \<open>Errors, directives and the data model\<close>

text \<open>
  Go's \<open>error\<close> values. \<open>NotFoundErr\<close> is the accessor's "no such object" error,
  \<open>Aggregate\<close> is what \<open>kerrors.NewAggregate\<close> builds.
\<close>

datatype error = Err string | NotFoundErr string | Aggregate "error list"

fun Error :: "error \<Rightarrow> string" where
  "Error (Err s) = s"
| "Error (NotFoundErr s) = s"
| "Error (Aggregate es) = concat (map Error es)"

text \<open>\<open>fmt.Errorf(prefix ++ "%w", err)\<close>: an error whose text is the prefix followed by the cause.\<close>

definition Errorf :: "string \<Rightarrow> error \<Rightarrow> error" where
  "Errorf prefix err = Err (prefix @ Error err)"

text \<open>\<open>client.IgnoreNotFound\<close>: a not-found error becomes \<open>nil\<close>.\<close>

fun IgnoreNotFound :: "error \<Rightarrow> error option" where
  "IgnoreNotFound (NotFoundErr s) = None"
| "IgnoreNotFound e = Some e"

text \<open>\<open>kerrors.NewAggregate\<close>: the \<open>nil\<close> entries are dropped; no entry left gives \<open>nil\<close>.\<close>

definition NewAggregate :: "error option list \<Rightarrow> error option" where
  "NewAggregate errs =
     (case List.map_filter id errs of [] \<Rightarrow> None | es \<Rightarrow> Some (Aggregate es))"

text \<open>
  \<open>ctrl.Result\<close>, the next-action directive of a stage or pass, with the fields the
  source file sets. The type and its method \<open>IsZero\<close> belong to the controller library,
  outside the source file: a result is zero when it is the zero value of the struct (no
  requeue, no delay).
\<close>

record Result =
  Requeue :: bool
  RequeueAfter :: int

definition Result_empty :: Result where
  "Result_empty = \<lparr>Requeue = False, RequeueAfter = 0\<rparr>"

definition IsZero :: "Result \<Rightarrow> bool" where
  "IsZero r \<longleftrightarrow> r = Result_empty"

text \<open>
  Modelled from the spec: the \<open>Artifact\<close> type of the API package, which is not part of
  the source file ("logical revision, content checksum, storage path, public URL").
\<close>

record Artifact =
  Path :: string
  URL :: string
  Revision :: string
  Checksum :: string

text \<open>
  Modelled from the spec: \<open>Artifact.HasRevision\<close> of the API package ("the advertised
  revision equals ..."); the method is called on a possibly \<open>nil\<close> artifact, for which
  no revision is advertised.
\<close>

fun HasRevision :: "Artifact option \<Rightarrow> string \<Rightarrow> bool" where
  "HasRevision None revision = False"
| "HasRevision (Some a) revision = (Revision a = revision)"

text \<open>
  The condition types that the source file names (constants of the API package and of
  the \<open>meta\<close> package), and the three statuses of a condition.
\<close>

datatype ConditionType =
    BuildFailedCondition | FetchFailedCondition
  | ArtifactOutdatedCondition | ArtifactUnavailableCondition
  | ReadyCondition | ReconcilingCondition | StalledCondition

datatype ConditionStatus = ConditionTrue | ConditionFalse | ConditionUnknown

record Condition =
  Type :: ConditionType
  Status :: ConditionStatus
  Reason :: string
  Message :: string

text \<open>
  The \<open>HelmChart\<close> object. Its type is declared outside the source file; the fields
  here are those that the source file reads or writes. A field \<open>Spec_X\<close> is the Go
  field \<open>obj.Spec.X\<close>, \<open>Status_X\<close> is \<open>obj.Status.X\<close>, the others are metadata.
  \<open>DeletionTimestamp\<close> is \<open>None\<close> for a \<open>nil\<close> pointer.
\<close>

record HelmChart =
  Kind :: string
  Name :: string
  Namespace :: string
  Generation :: int
  DeletionTimestamp :: "nat option"
  Finalizers :: "string list"
  Annotations :: "(string \<times> string) list"
  Spec_Suspend :: bool
  Spec_SourceRef_Kind :: string
  Spec_SourceRef_Name :: string
  Spec_Interval :: int
  Spec_ValuesFiles :: "string list"
  Status_Artifact :: "Artifact option"
  Status_URL :: string
  Status_ObservedGeneration :: int
  Status_LastHandledReconcileAt :: string
  Status_Conditions :: "Condition list"

text \<open>\<open>metav1.Time.IsZero\<close>: a \<open>nil\<close> pointer or the zero time.\<close>

fun Time_IsZero :: "nat option \<Rightarrow> bool" where
  "Time_IsZero None = True"
| "Time_IsZero (Some t) = (t = 0)"

text \<open>
  Modelled from the spec: the accessors of the API type, which are not part of the
  source file. The status holds the "current published Artifact (or none)"; the spec of
  the object holds the requeue interval and the "optional value-overlay references".
\<close>

definition GetArtifact :: "HelmChart \<Rightarrow> Artifact option" where
  "GetArtifact obj = Status_Artifact obj"

definition GetRequeueAfter :: "HelmChart \<Rightarrow> int" where
  "GetRequeueAfter obj = Spec_Interval obj"

definition GetValuesFiles :: "HelmChart \<Rightarrow> string list" where
  "GetValuesFiles obj = Spec_ValuesFiles obj"

section \<open>Conditions\<close>

text \<open>
  Modelled from the spec: the condition helpers (\<open>conditions.Get\<close>, \<open>Set\<close>, \<open>Delete\<close>,
  \<open>MarkTrue\<close>, \<open>MarkReconciling\<close>, \<open>MarkStalled\<close>, \<open>SetSummary\<close>) belong to a package
  that is not part of the source file. The spec: a condition is "a named boolean-ish
  status signal with reason + human message"; the "condition set is append/update/delete
  only -- no two entries share a name".
\<close>

definition conditions_Get :: "HelmChart \<Rightarrow> ConditionType \<Rightarrow> Condition option" where
  "conditions_Get obj t = find (\<lambda>c. Type c = t) (Status_Conditions obj)"

definition conditions_Set :: "HelmChart \<Rightarrow> Condition \<Rightarrow> HelmChart" where
  "conditions_Set obj c =
     obj\<lparr>Status_Conditions :=
       (if \<exists>d \<in> set (Status_Conditions obj). Type d = Type c
        then map (\<lambda>d. if Type d = Type c then c else d) (Status_Conditions obj)
        else Status_Conditions obj @ [c])\<rparr>"

definition conditions_Delete :: "HelmChart \<Rightarrow> ConditionType \<Rightarrow> HelmChart" where
  "conditions_Delete obj t =
     obj\<lparr>Status_Conditions := filter (\<lambda>c. Type c \<noteq> t) (Status_Conditions obj)\<rparr>"

definition conditions_MarkTrue ::
    "HelmChart \<Rightarrow> ConditionType \<Rightarrow> string \<Rightarrow> string \<Rightarrow> HelmChart" where
  "conditions_MarkTrue obj t reason message =
     conditions_Set obj \<lparr>Type = t, Status = ConditionTrue, Reason = reason, Message = message\<rparr>"

definition conditions_MarkFalse ::
    "HelmChart \<Rightarrow> ConditionType \<Rightarrow> string \<Rightarrow> string \<Rightarrow> HelmChart" where
  "conditions_MarkFalse obj t reason message =
     conditions_Set obj \<lparr>Type = t, Status = ConditionFalse, Reason = reason, Message = message\<rparr>"

definition conditions_MarkReconciling :: "HelmChart \<Rightarrow> string \<Rightarrow> string \<Rightarrow> HelmChart" where
  "conditions_MarkReconciling obj reason message =
     conditions_MarkTrue obj ReconcilingCondition reason message"

definition conditions_MarkStalled :: "HelmChart \<Rightarrow> string \<Rightarrow> string \<Rightarrow> HelmChart" where
  "conditions_MarkStalled obj reason message =
     conditions_MarkTrue obj StalledCondition reason message"

definition conditions_IsTrue :: "HelmChart \<Rightarrow> ConditionType \<Rightarrow> bool" where
  "conditions_IsTrue obj t =
     (case conditions_Get obj t of None \<Rightarrow> False | Some c \<Rightarrow> Status c = ConditionTrue)"

definition conditions_IsFalse :: "HelmChart \<Rightarrow> ConditionType \<Rightarrow> bool" where
  "conditions_IsFalse obj t =
     (case conditions_Get obj t of None \<Rightarrow> False | Some c \<Rightarrow> Status c = ConditionFalse)"

text \<open>
  Modelled from the spec: \<open>conditions.SetSummary\<close> with the options \<open>WithConditions\<close> (the
  conditions in scope, in priority order) and \<open>WithNegativePolarityConditions\<close>. The spec:
  "if any tracked negative condition is true, ready = false with reason/message copied
  from the first true one found in a fixed priority order; otherwise ready = true". A
  condition signals a problem when it is true and of negative polarity ("true means a
  problem"), or false and of positive polarity ("true means healthy"). The spec gives no
  reason for a true summary: one that is true already is kept, otherwise it is marked
  true with \<open>SucceededReason\<close> and no message.
\<close>

definition SucceededReason :: string where
  "SucceededReason = ''Succeeded''"

definition signals_problem :: "HelmChart \<Rightarrow> ConditionType list \<Rightarrow> ConditionType \<Rightarrow> bool" where
  "signals_problem obj negative t =
     (if t \<in> set negative then conditions_IsTrue obj t else conditions_IsFalse obj t)"

definition conditions_SetSummary ::
    "HelmChart \<Rightarrow> ConditionType \<Rightarrow> ConditionType list \<Rightarrow> ConditionType list \<Rightarrow> HelmChart" where
  "conditions_SetSummary obj target inScope negative =
     (case find (signals_problem obj negative) inScope of
        Some t \<Rightarrow>
          (case conditions_Get obj t of
             Some c \<Rightarrow> conditions_MarkFalse obj target (Reason c) (Message c)
           | None \<Rightarrow> obj)
      | None \<Rightarrow>
          (if conditions_IsTrue obj target then obj
           else conditions_MarkTrue obj target SucceededReason []))"

section \<open>Finalizers and annotations\<close>

text \<open>
  Modelled from the spec: the finalizer helpers of \<open>controllerutil\<close> and the name of the
  finalizer ("a deletion guard (finalizer marker) is added on first reconciliation and
  removed only after successful teardown"), and the lookup of the reconcile-request
  annotation ("last-handled-reconcile-request token"); none is part of the source file.
\<close>

definition SourceFinalizer :: string where
  "SourceFinalizer = ''finalizers.fluxcd.io''"

definition ContainsFinalizer :: "HelmChart \<Rightarrow> string \<Rightarrow> bool" where
  "ContainsFinalizer obj f \<longleftrightarrow> f \<in> set (Finalizers obj)"

definition AddFinalizer :: "HelmChart \<Rightarrow> string \<Rightarrow> HelmChart" where
  "AddFinalizer obj f =
     (if f \<in> set (Finalizers obj) then obj else obj\<lparr>Finalizers := Finalizers obj @ [f]\<rparr>)"

definition RemoveFinalizer :: "HelmChart \<Rightarrow> string \<Rightarrow> HelmChart" where
  "RemoveFinalizer obj f = obj\<lparr>Finalizers := filter (\<lambda>g. g \<noteq> f) (Finalizers obj)\<rparr>"

definition ReconcileRequestAnnotation :: string where
  "ReconcileRequestAnnotation = ''reconcile.fluxcd.io/requestedAt''"

definition ReconcileAnnotationValue :: "(string \<times> string) list \<Rightarrow> string option" where
  "ReconcileAnnotationValue annotations = map_of annotations ReconcileRequestAnnotation"

section \<open>The environment of a pass\<close>

text \<open>
  What a pass does to the outside is recorded in order: the events it emits and the
  calls it makes to the store and to the chart builder. Log lines and metrics are not
  modelled; they have no effect on the object, the store or the result.
\<close>

datatype Severity = EventSeverityInfo | EventSeverityError

datatype Effect =
    Eventf Severity string string
  | EventWithMetaf "(string \<times> string) list" Severity string string
  | OpRemoveAll Artifact
  | OpRemoveAllButCurrent Artifact
  | OpArtifactExist Artifact
  | OpMkdirAll Artifact
  | OpLock Artifact
  | OpUnlock Artifact
  | OpCopyFromPath Artifact string
  | OpSymlink Artifact string
  | OpMkdirTemp string
  | OpLoadMetadata
  | OpMergeValuesFiles "string list"
  | OpChartSourceIsDir
  | OpFetchMissingDependencies
  | OpBuild

text \<open>
  The mutable world: the paths of the artifacts in the store, the artifact paths whose
  lock is held, and the effects so far.
\<close>

record World =
  Files :: "string list"
  Locks :: "string list"
  Trace :: "Effect list"

definition emit :: "Effect \<Rightarrow> World \<Rightarrow> World" where
  "emit e w = w\<lparr>Trace := Trace w @ [e]\<rparr>"

text \<open>
  The store is a collaborator whose code is not part of the source file. Whether a
  fallible operation fails, what checksum a copy computes and what URL an alias gets is
  a parameter of the pass; so are the URL the store serves an artifact under and the
  rewriting of a URL's host name.
\<close>

record Storage =
  ArtifactURL :: "Artifact \<Rightarrow> string"
  SetHostname :: "string \<Rightarrow> string"
  MkdirAllErr :: "error option"
  LockErr :: "error option"
  CopyFromPathRes :: "error + string"
  SymlinkRes :: "string \<times> error option"
  RemoveAllErr :: "error option"
  RemoveAllButCurrentErr :: "error option"

text \<open>\<open>path.Dir\<close> of a slash-separated path: what precedes the last slash.\<close>

definition dirname :: "string \<Rightarrow> string" where
  "dirname p = rev (drop 1 (dropWhile (\<lambda>c. c \<noteq> CHR ''/'') (rev p)))"

text \<open>
  Modelled from the spec: the operations of the store (\<open>Storage\<close>, not part of the source
  file). The spec: artifacts are stored under "the object's identity-scoped storage
  namespace"; \<open>exists(Artifact) -> bool\<close>; \<open>setPublicURL(Artifact)\<close>; full teardown "delete
  every stored artifact for the object, matched by a wildcard over the object's
  identity-scoped storage namespace"; retain-current "delete every stored artifact for
  the object except the one currently advertised in status. Never touches artifacts of
  other objects"; "acquire a per-artifact-path exclusive lock"; "copy artifact bytes into
  place". What a failed operation leaves behind the spec does not say; here it leaves the
  store as it was.
\<close>

definition ArtifactDir :: "string \<Rightarrow> string \<Rightarrow> string \<Rightarrow> string" where
  "ArtifactDir kind namespace name = kind @ ''/'' @ namespace @ ''/'' @ name"

definition ArtifactPath :: "string \<Rightarrow> string \<Rightarrow> string \<Rightarrow> string \<Rightarrow> string" where
  "ArtifactPath kind namespace name filename = ArtifactDir kind namespace name @ ''/'' @ filename"

definition Storage_SetArtifactURL :: "Storage \<Rightarrow> Artifact \<Rightarrow> Artifact" where
  "Storage_SetArtifactURL s a = a\<lparr>URL := ArtifactURL s a\<rparr>"

definition Storage_NewArtifactFor ::
    "Storage \<Rightarrow> string \<Rightarrow> HelmChart \<Rightarrow> string \<Rightarrow> string \<Rightarrow> Artifact" where
  "Storage_NewArtifactFor s kind metadata revision fileName =
     Storage_SetArtifactURL s
       \<lparr>Path = ArtifactPath kind (Namespace metadata) (Name metadata) fileName,
        URL = [], Revision = revision, Checksum = []\<rparr>"

definition Storage_ArtifactExist :: "Storage \<Rightarrow> Artifact \<Rightarrow> World \<Rightarrow> bool \<times> World" where
  "Storage_ArtifactExist s a w = (Path a \<in> set (Files w), emit (OpArtifactExist a) w)"

definition Storage_RemoveAll :: "Storage \<Rightarrow> Artifact \<Rightarrow> World \<Rightarrow> error option \<times> World" where
  "Storage_RemoveAll s a w =
     (let w1 = emit (OpRemoveAll a) w in
      case RemoveAllErr s of
        Some err \<Rightarrow> (Some err, w1)
      | None \<Rightarrow> (None, w1\<lparr>Files := filter (\<lambda>p. dirname p \<noteq> dirname (Path a)) (Files w1)\<rparr>))"

definition Storage_RemoveAllButCurrent ::
    "Storage \<Rightarrow> Artifact \<Rightarrow> World \<Rightarrow> error option \<times> World" where
  "Storage_RemoveAllButCurrent s a w =
     (let w1 = emit (OpRemoveAllButCurrent a) w in
      case RemoveAllButCurrentErr s of
        Some err \<Rightarrow> (Some err, w1)
      | None \<Rightarrow>
          (None, w1\<lparr>Files :=
             filter (\<lambda>p. dirname p \<noteq> dirname (Path a) \<or> p = Path a) (Files w1)\<rparr>))"

definition Storage_MkdirAll :: "Storage \<Rightarrow> Artifact \<Rightarrow> World \<Rightarrow> error option \<times> World" where
  "Storage_MkdirAll s a w = (MkdirAllErr s, emit (OpMkdirAll a) w)"

definition Storage_Lock :: "Storage \<Rightarrow> Artifact \<Rightarrow> World \<Rightarrow> error option \<times> World" where
  "Storage_Lock s a w =
     (let w1 = emit (OpLock a) w in
      case LockErr s of
        Some err \<Rightarrow> (Some err, w1)
      | None \<Rightarrow> (None, w1\<lparr>Locks := Path a # Locks w1\<rparr>))"

definition unlock :: "Artifact \<Rightarrow> World \<Rightarrow> World" where
  "unlock a w = (emit (OpUnlock a) w)\<lparr>Locks := remove1 (Path a) (Locks w)\<rparr>"

definition Storage_CopyFromPath ::
    "Storage \<Rightarrow> Artifact \<Rightarrow> string \<Rightarrow> World \<Rightarrow> (error option \<times> Artifact) \<times> World" where
  "Storage_CopyFromPath s a path w =
     (let w1 = emit (OpCopyFromPath a path) w in
      case CopyFromPathRes s of
        Inl err \<Rightarrow> ((Some err, a), w1)
      | Inr checksum \<Rightarrow>
          ((None, a\<lparr>Checksum := checksum\<rparr>),
           w1\<lparr>Files := (if Path a \<in> set (Files w1) then Files w1 else Files w1 @ [Path a])\<rparr>))"

definition Storage_Symlink ::
    "Storage \<Rightarrow> Artifact \<Rightarrow> string \<Rightarrow> World \<Rightarrow> (string \<times> error option) \<times> World" where
  "Storage_Symlink s a linkName w = (SymlinkRes s, emit (OpSymlink a linkName) w)"

text \<open>
  The chart builder (\<open>chartBuilder\<close>, not part of the source file) is a collaborator too:
  the outcome of each of its operations is a parameter of the pass.
\<close>

record ChartMetadata =
  MetaName :: string
  MetaVersion :: string

record chartBuilder =
  LoadMetadataRes :: "error + ChartMetadata"
  MergeValuesFilesErr :: "error option"
  ChartSourceIsDirRes :: "error + bool"
  FetchMissingDependenciesRes :: "error + nat"
  BuildRes :: "error + string"

text \<open>
  The accessor (\<open>client.Client\<close>): the outcome of \<open>Get\<close>, of creating the patch helper and
  of the final patch are parameters; \<open>List\<close> fails with \<open>ListErr\<close> or returns the charts
  of the cache that the field index files under the given key.
\<close>

record Client =
  GetRes :: "string \<times> string \<Rightarrow> error + HelmChart"
  Charts :: "HelmChart list"
  ListErr :: "error option"
  NewHelperErr :: "error option"
  PatchErr :: "error option"


text \<open>
  The reconciler. \<open>os.MkdirTemp\<close> may fail; \<open>newChartBuilder\<close> gives the builder of the
  pass; \<open>reconcileSource\<close>, a method that the source file calls and does not define, is
  taken as it comes: any function from the object and the world to a directive, an
  error, and the object and the world it leaves.
\<close>

record HelmChartReconciler =
  Client :: Client
  Storage :: Storage
  MkdirTempErr :: "error option"
  newChartBuilder :: chartBuilder
  reconcileSource :: "HelmChart \<Rightarrow> World \<Rightarrow> (Result \<times> error option) \<times> HelmChart \<times> World"

definition StorageOperationFailedReason :: string where
  "StorageOperationFailedReason = ''StorageOperationFailed''"

section \<open>Garbage collection and deletion\<close>

definition garbageCollect ::
    "HelmChartReconciler \<Rightarrow> HelmChart \<Rightarrow> World \<Rightarrow> error option \<times> HelmChart \<times> World" where
  "garbageCollect r obj w =
     (if \<not> Time_IsZero (DeletionTimestamp obj) then
        (case Storage_RemoveAll (Storage r)
                (Storage_NewArtifactFor (Storage r) (Kind obj) obj [] ''*'') w of
           (Some err, w1) \<Rightarrow>
             (Some err, obj,
              emit (Eventf EventSeverityError ''GarbageCollectionFailed''
                (''Garbage collection for deleted resource failed: '' @ Error err)) w1)
         | (None, w1) \<Rightarrow>
             (None, obj\<lparr>Status_Artifact := None\<rparr>,
              emit (Eventf EventSeverityInfo ''GarbageCollectionSucceeded''
                ''Garbage collected artifacts for deleted resource'') w1))
      else
        (case GetArtifact obj of
           Some artifact \<Rightarrow>
             (case Storage_RemoveAllButCurrent (Storage r) artifact w of
                (Some err, w1) \<Rightarrow>
                  (Some err, obj,
                   emit (Eventf EventSeverityError ''GarbageCollectionFailed''
                     (''Garbage collection of old artifacts failed: '' @ Error err)) w1)
              | (None, w1) \<Rightarrow>
                  (None, obj,
                   emit (Eventf EventSeverityInfo ''GarbageCollectionSucceeded''
                     ''Garbage collected old artifacts'') w1))
         | None \<Rightarrow> (None, obj, w)))"

definition reconcileDelete ::
    "HelmChartReconciler \<Rightarrow> HelmChart \<Rightarrow> World
      \<Rightarrow> (Result \<times> error option) \<times> HelmChart \<times> World" where
  "reconcileDelete r obj w =
     (case garbageCollect r obj w of
        (Some err, obj1, w1) \<Rightarrow> ((Result_empty, Some err), obj1, w1)
      | (None, obj1, w1) \<Rightarrow>
          ((Result_empty, None), RemoveFinalizer obj1 SourceFinalizer, w1))"

section \<open>The stages of a pass\<close>

text \<open>The check that the advertised artifact is still in the store (clearing it if not).\<close>

definition verifyArtifact ::
    "HelmChartReconciler \<Rightarrow> HelmChart \<Rightarrow> World \<Rightarrow> HelmChart \<times> World" where
  "verifyArtifact r obj w =
     (case GetArtifact obj of
        None \<Rightarrow> (obj, w)
      | Some artifact \<Rightarrow>
          (case Storage_ArtifactExist (Storage r) artifact w of
             (exist, w1) \<Rightarrow>
               (if \<not> exist then (obj\<lparr>Status_Artifact := None, Status_URL := []\<rparr>, w1)
                else (obj, w1))))"

definition reconcileStorage ::
    "HelmChartReconciler \<Rightarrow> HelmChart \<Rightarrow> World
      \<Rightarrow> (Result \<times> error option) \<times> HelmChart \<times> World" where
  "reconcileStorage r obj w =
     (case garbageCollect r obj w of
        (ignored, obj1, w1) \<Rightarrow>
          (case verifyArtifact r obj1 w1 of
             (obj2, w2) \<Rightarrow>
               (case GetArtifact obj2 of
                  None \<Rightarrow>
                    ((\<lparr>Requeue = True, RequeueAfter = 0\<rparr>, None),
                     conditions_MarkTrue obj2 ArtifactUnavailableCondition
                       ''NoArtifact'' ''No artifact for resource in storage'',
                     w2)
                | Some artifact \<Rightarrow>
                    (let obj3 = conditions_Delete obj2 ArtifactUnavailableCondition;
                         obj4 = obj3\<lparr>Status_Artifact :=
                                  Some (Storage_SetArtifactURL (Storage r) artifact)\<rparr>;
                         obj5 = obj4\<lparr>Status_URL := SetHostname (Storage r) (Status_URL obj4)\<rparr>
                     in ((\<lparr>Requeue = False, RequeueAfter = GetRequeueAfter obj5\<rparr>, None),
                         obj5, w2)))))"

text \<open>
  The build stage. The candidate artifact and the chart path are out-parameters: the
  stage gets their current values and returns them, updated only by a build.
\<close>

definition buildChart ::
    "HelmChartReconciler \<Rightarrow> HelmChart \<Rightarrow> chartBuilder \<Rightarrow> ChartMetadata \<Rightarrow> Artifact \<Rightarrow> string
      \<Rightarrow> World \<Rightarrow> (Result \<times> error option) \<times> Artifact \<times> string \<times> World" where
  "buildChart r obj build chartMeta artifact result w =
     (case (if length (GetValuesFiles obj) > 0
            then (MergeValuesFilesErr build, emit (OpMergeValuesFiles (GetValuesFiles obj)) w)
            else (None, w)) of
        (Some err, w1) \<Rightarrow> ((Result_empty, Some err), artifact, result, w1)
      | (None, w1) \<Rightarrow>
          (case (case ChartSourceIsDirRes build of
                   Inl err \<Rightarrow> (Some err, emit OpChartSourceIsDir w1)
                 | Inr isChartDir \<Rightarrow>
                     (if isChartDir then
                        (case FetchMissingDependenciesRes build of
                           Inl err \<Rightarrow>
                             (Some err,
                              emit OpFetchMissingDependencies (emit OpChartSourceIsDir w1))
                         | Inr downloaded \<Rightarrow>
                             (None,
                              emit OpFetchMissingDependencies (emit OpChartSourceIsDir w1)))
                      else (None, emit OpChartSourceIsDir w1))) of
             (Some err, w2) \<Rightarrow> ((Result_empty, Some err), artifact, result, w2)
           | (None, w2) \<Rightarrow>
               (case BuildRes build of
                  Inl err \<Rightarrow> ((Result_empty, Some err), artifact, result, emit OpBuild w2)
                | Inr chartPath \<Rightarrow>
                    ((\<lparr>Requeue = False, RequeueAfter = GetRequeueAfter obj\<rparr>, None),
                     Storage_NewArtifactFor (Storage r) (Kind obj) obj (MetaVersion chartMeta)
                       (MetaName chartMeta @ ''-'' @ MetaVersion chartMeta @ ''.tgz''),
                     chartPath, emit OpBuild w2))))"

definition reconcileChart ::
    "HelmChartReconciler \<Rightarrow> HelmChart \<Rightarrow> chartBuilder \<Rightarrow> Artifact \<Rightarrow> string
      \<Rightarrow> World \<Rightarrow> (Result \<times> error option) \<times> Artifact \<times> string \<times> World" where
  "reconcileChart r obj build artifact result w =
     (case LoadMetadataRes build of
        Inl err \<Rightarrow> ((Result_empty, Some err), artifact, result, emit OpLoadMetadata w)
      | Inr chartMeta \<Rightarrow>
          (if HasRevision (GetArtifact obj) (MetaVersion chartMeta)
              \<and> Generation obj = Status_ObservedGeneration obj
           then ((\<lparr>Requeue = False, RequeueAfter = GetRequeueAfter obj\<rparr>, None),
                 artifact, result, emit OpLoadMetadata w)
           else buildChart r obj build chartMeta artifact result (emit OpLoadMetadata w)))"

text \<open>
  The publish stage. Its first deferred function restores the conditions at every exit;
  its second one, \<open>unlock\<close>, runs at every exit after the lock was acquired.
\<close>

definition restoreReady :: "HelmChart \<Rightarrow> Artifact \<Rightarrow> HelmChart" where
  "restoreReady obj artifact =
     (let obj1 = (if GetArtifact obj \<noteq> None
                  then conditions_Delete obj ArtifactUnavailableCondition else obj)
      in if HasRevision (GetArtifact obj1) (Revision artifact)
         then conditions_MarkTrue
                (conditions_Delete obj1 ArtifactOutdatedCondition) ReadyCondition
                SucceededReason
                (''Stored artifact for revision '' @ [CHR 0x27] @ Revision artifact @ [CHR 0x27])
         else obj1)"

definition publishArtifact ::
    "HelmChartReconciler \<Rightarrow> HelmChart \<Rightarrow> Artifact \<Rightarrow> World
      \<Rightarrow> (Result \<times> error option) \<times> HelmChart \<times> World" where
  "publishArtifact r obj artifact w =
     (let w1 = emit (EventWithMetaf
                  [(''revision'', Revision artifact), (''checksum'', Checksum artifact)]
                  EventSeverityInfo ''NewArtifact''
                  (''Stored artifact for revision '' @ [CHR 0x27] @ Revision artifact
                     @ [CHR 0x27])) w;
          obj1 = obj\<lparr>Status_Artifact := Some artifact\<rparr>
      in case Storage_Symlink (Storage r) artifact ''latest.tar.gz'' w1 of
           ((url, err), w2) \<Rightarrow>
             (let w3 = (case err of
                          Some e \<Rightarrow>
                            emit (Eventf EventSeverityError StorageOperationFailedReason
                              (''Failed to update status URL symlink: '' @ Error e)) w2
                        | None \<Rightarrow> w2);
                  obj2 = (if url \<noteq> [] then obj1\<lparr>Status_URL := url\<rparr> else obj1)
              in ((\<lparr>Requeue = False, RequeueAfter = GetRequeueAfter obj2\<rparr>, None), obj2, w3)))"

definition reconcileArtifact ::
    "HelmChartReconciler \<Rightarrow> HelmChart \<Rightarrow> Artifact \<Rightarrow> string \<Rightarrow> World
      \<Rightarrow> (Result \<times> error option) \<times> HelmChart \<times> World" where
  "reconcileArtifact r obj artifact path w =
     (case Storage_MkdirAll (Storage r) artifact w of
        (Some err, w1) \<Rightarrow>
          ((Result_empty, Some (Errorf ''failed to create artifact directory: '' err)),
           restoreReady obj artifact, w1)
      | (None, w1) \<Rightarrow>
          (case Storage_Lock (Storage r) artifact w1 of
             (Some err, w2) \<Rightarrow>
               ((Result_empty, Some (Errorf ''failed to acquire lock for artifact: '' err)),
                restoreReady obj artifact, w2)
           | (None, w2) \<Rightarrow>
               (case Storage_CopyFromPath (Storage r) artifact path w2 of
                  ((Some err, artifact1), w3) \<Rightarrow>
                    ((Result_empty, Some err),
                     restoreReady obj artifact1,
                     unlock artifact
                       (emit (Eventf EventSeverityError StorageOperationFailedReason
                          (''Failed to write Helm repository index to storage: '' @ Error err))
                          w3))
                | ((None, artifact1), w3) \<Rightarrow>
                    (case publishArtifact r obj artifact1 w3 of
                       (res, obj1, w4) \<Rightarrow>
                         (res, restoreReady obj1 artifact1, unlock artifact w4)))))"


text \<open>
  A pass over an object that is not under deletion. A stage stops the pass when it
  returns an error or the zero directive. \<open>reconcileAfterStorage\<close> is the part of
  \<open>reconcile\<close> that follows the storage stage: the working directory, then the source,
  build and publish stages. The candidate artifact and the chart path start as Go's zero
  values. The scratch directories that the pass removes at its exit are outside the
  store and are not modelled.
\<close>

definition zeroArtifact :: Artifact where
  "zeroArtifact = \<lparr>Path = [], URL = [], Revision = [], Checksum = []\<rparr>"

definition reconcileAfterStorage ::
    "HelmChartReconciler \<Rightarrow> HelmChart \<Rightarrow> World
      \<Rightarrow> (Result \<times> error option) \<times> HelmChart \<times> World" where
  "reconcileAfterStorage r obj w =
     (let w1 = emit (OpMkdirTemp (Namespace obj @ ''-'' @ Name obj @ ''-'')) w in
      case MkdirTempErr r of
        Some err \<Rightarrow>
          ((Result_empty, Some err),
           conditions_MarkTrue obj FetchFailedCondition StorageOperationFailedReason
             (''Failed to create temporary working directory: '' @ Error err),
           emit (Eventf EventSeverityError StorageOperationFailedReason
             (''Failed to create temporary working directory: '' @ Error err)) w1)
      | None \<Rightarrow>
          (case reconcileSource r obj w1 of
             ((result, err), obj1, w2) \<Rightarrow>
               (if err \<noteq> None \<or> IsZero result then ((result, err), obj1, w2)
                else
                  (case reconcileChart r obj1 (newChartBuilder r) zeroArtifact [] w2 of
                     ((result, err), artifact, chartPath, w3) \<Rightarrow>
                       (if err \<noteq> None \<or> IsZero result then ((result, err), obj1, w3)
                        else reconcileArtifact r obj1 artifact chartPath w3)))))"

definition reconcile ::
    "HelmChartReconciler \<Rightarrow> HelmChart \<Rightarrow> World
      \<Rightarrow> (Result \<times> error option) \<times> HelmChart \<times> World" where
  "reconcile r obj w =
     (case reconcileStorage r (conditions_MarkReconciling obj ''Reconciling'' []) w of
        ((result, err), obj1, w1) \<Rightarrow>
          (if err \<noteq> None \<or> IsZero result then ((result, err), obj1, w1)
           else reconcileAfterStorage r obj1 w1))"

section \<open>The pass and its deferred status update\<close>

datatype panic = Panic string

text \<open>
  Modelled from the spec: the patch helper, which is not part of the source file. With
  the option \<open>WithStatusObservedGeneration\<close> the patch "record[s] the generation just
  processed as observed"; a failed patch leaves the object as it is.
\<close>

definition Patch ::
    "Client \<Rightarrow> HelmChart \<Rightarrow> bool \<Rightarrow> error option \<times> HelmChart" where
  "Patch c obj withStatusObservedGeneration =
     (case PatchErr c of
        Some err \<Rightarrow> (Some err, obj)
      | None \<Rightarrow>
          (None,
           if withStatusObservedGeneration
           then obj\<lparr>Status_ObservedGeneration := Generation obj\<rparr> else obj))"

definition trackedConditions :: "ConditionType list" where
  "trackedConditions =
     [BuildFailedCondition, FetchFailedCondition,
      ArtifactOutdatedCondition, ArtifactUnavailableCondition]"

text \<open>The last step of the deferred function: patch, and join a patch error to the pass's.\<close>

definition patchObject ::
    "HelmChartReconciler \<Rightarrow> HelmChart \<Rightarrow> bool \<Rightarrow> Result \<Rightarrow> error option \<Rightarrow> World
      \<Rightarrow> (Result \<times> error option) \<times> HelmChart \<times> World" where
  "patchObject r obj observed result retErr w =
     (case Patch (Client r) obj observed of
        (Some err, obj1) \<Rightarrow> ((result, NewAggregate [retErr, Some err]), obj1, w)
      | (None, obj1) \<Rightarrow> ((result, retErr), obj1, w))"

text \<open>
  The deferred function of \<open>Reconcile\<close>. Reading the status of a ready condition that is
  absent dereferences \<open>nil\<close>: a panic.
\<close>

definition Reconcile_deferred ::
    "HelmChartReconciler \<Rightarrow> HelmChart \<Rightarrow> Result \<Rightarrow> error option \<Rightarrow> World
      \<Rightarrow> panic + ((Result \<times> error option) \<times> HelmChart \<times> World)" where
  "Reconcile_deferred r obj result retErr w =
     (let obj1 = (case ReconcileAnnotationValue (Annotations obj) of
                    Some v \<Rightarrow> obj\<lparr>Status_LastHandledReconcileAt := v\<rparr>
                  | None \<Rightarrow> obj);
          obj2 = conditions_SetSummary obj1 ReadyCondition trackedConditions trackedConditions
      in if retErr = None \<and> (IsZero result \<or> \<not> Requeue result) then
           (let obj3 = conditions_Delete obj2 ReconcilingCondition in
            case conditions_Get obj3 ReadyCondition of
              None \<Rightarrow> Inl (Panic ''nil pointer dereference'')
            | Some readyCondition \<Rightarrow>
                (let obj4 = (case Status readyCondition of
                               ConditionFalse \<Rightarrow>
                                 conditions_MarkStalled obj3
                                   (Reason readyCondition) (Message readyCondition)
                             | ConditionTrue \<Rightarrow> conditions_Delete obj3 StalledCondition
                             | ConditionUnknown \<Rightarrow> obj3)
                 in Inr (patchObject r obj4 True result retErr w)))
         else Inr (patchObject r obj2 False result retErr w))"

text \<open>
  One reconciliation pass for the object of a request. The object returned is the one
  the pass leaves (\<open>None\<close> when it could not be fetched).
\<close>

definition Reconcile ::
    "HelmChartReconciler \<Rightarrow> string \<times> string \<Rightarrow> World
      \<Rightarrow> panic + ((Result \<times> error option) \<times> HelmChart option \<times> World)" where
  "Reconcile r req w =
     (case GetRes (Client r) req of
        Inl err \<Rightarrow> Inr ((Result_empty, IgnoreNotFound err), None, w)
      | Inr obj \<Rightarrow>
          (if Spec_Suspend obj then Inr ((Result_empty, None), Some obj, w)
           else
             (case NewHelperErr (Client r) of
                Some err \<Rightarrow> Inr ((Result_empty, Some err), Some obj, w)
              | None \<Rightarrow>
                  (case (if \<not> ContainsFinalizer obj SourceFinalizer
                         then ((\<lparr>Requeue = True, RequeueAfter = 0\<rparr>, None),
                               AddFinalizer obj SourceFinalizer, w)
                         else if \<not> Time_IsZero (DeletionTimestamp obj)
                         then reconcileDelete r obj w
                         else reconcile r obj w) of
                     ((result, retErr), obj1, w1) \<Rightarrow>
                       (case Reconcile_deferred r obj1 result retErr w1 of
                          Inl p \<Rightarrow> Inl p
                        | Inr (res, obj2, w2) \<Rightarrow> Inr (res, Some obj2, w2))))))"

section \<open>The dependency index and change propagation\<close>

text \<open>An upstream source object, with the fields the handlers read.\<close>

record Source =
  SourceName :: string
  SourceNamespace :: string
  SourceArtifact :: "Artifact option"

datatype Object =
    HelmRepositoryObject Source
  | GitRepositoryObject Source
  | BucketObject Source
  | HelmChartObject HelmChart

text \<open>
  Modelled from the spec: the kind names of the three upstream sources, constants of the
  API package ("repository-of-charts, version-controlled-repository,
  object-storage-bucket").
\<close>

definition HelmRepositoryKind :: string where
  "HelmRepositoryKind = ''HelmRepository''"

definition GitRepositoryKind :: string where
  "GitRepositoryKind = ''GitRepository''"

definition BucketKind :: string where
  "BucketKind = ''Bucket''"

definition indexHelmChartBySource :: "Object \<Rightarrow> panic + string list" where
  "indexHelmChartBySource o' =
     (case o' of
        HelmChartObject hc \<Rightarrow> Inr [Spec_SourceRef_Kind hc @ ''/'' @ Spec_SourceRef_Name hc]
      | _ \<Rightarrow> Inl (Panic ''Expected a HelmChart''))"

text \<open>
  Modelled from the spec: \<open>List\<close> with a field selector ("\<open>list(filter) -> [Object]\<close> where
  filter may match an index key"). The index is the one registered at setup: every chart
  is filed under the keys that \<open>indexHelmChartBySource\<close> gives it.
\<close>

definition indexedUnder :: "string \<Rightarrow> HelmChart \<Rightarrow> bool" where
  "indexedUnder key hc =
     (case indexHelmChartBySource (HelmChartObject hc) of
        Inr keys \<Rightarrow> key \<in> set keys
      | Inl p \<Rightarrow> False)"

definition Client_List :: "Client \<Rightarrow> string \<Rightarrow> error + HelmChart list" where
  "Client_List c key =
     (case ListErr c of
        Some err \<Rightarrow> Inl err
      | None \<Rightarrow> Inr (filter (indexedUnder key) (Charts c)))"

definition ObjectKeyFromObject :: "HelmChart \<Rightarrow> string \<times> string" where
  "ObjectKeyFromObject obj = (Namespace obj, Name obj)"

text \<open>The loop that appends one request for each listed item.\<close>

fun appendRequests :: "HelmChart list \<Rightarrow> (string \<times> string) list \<Rightarrow> (string \<times> string) list" where
  "appendRequests [] reqs = reqs"
| "appendRequests (i # items) reqs = appendRequests items (reqs @ [ObjectKeyFromObject i])"

definition requestsForHelmRepositoryChange ::
    "HelmChartReconciler \<Rightarrow> Object \<Rightarrow> panic + (string \<times> string) list" where
  "requestsForHelmRepositoryChange r o' =
     (case o' of
        HelmRepositoryObject repo \<Rightarrow>
          (if SourceArtifact repo = None then Inr []
           else
             (case Client_List (Client r) (HelmRepositoryKind @ ''/'' @ SourceName repo) of
                Inl err \<Rightarrow> Inr []
              | Inr items \<Rightarrow> Inr (appendRequests items [])))
      | _ \<Rightarrow> Inl (Panic ''Expected a HelmRepository''))"

definition requestsForGitRepositoryChange ::
    "HelmChartReconciler \<Rightarrow> Object \<Rightarrow> panic + (string \<times> string) list" where
  "requestsForGitRepositoryChange r o' =
     (case o' of
        GitRepositoryObject repo \<Rightarrow>
          (if SourceArtifact repo = None then Inr []
           else
             (case Client_List (Client r) (GitRepositoryKind @ ''/'' @ SourceName repo) of
                Inl err \<Rightarrow> Inr []
              | Inr items \<Rightarrow> Inr (appendRequests items [])))
      | _ \<Rightarrow> Inl (Panic ''Expected a GitRepository''))"

definition requestsForBucketChange ::
    "HelmChartReconciler \<Rightarrow> Object \<Rightarrow> panic + (string \<times> string) list" where
  "requestsForBucketChange r o' =
     (case o' of
        BucketObject bucket \<Rightarrow>
          (if SourceArtifact bucket = None then Inr []
           else
             (case Client_List (Client r) (BucketKind @ ''/'' @ SourceName bucket) of
                Inl err \<Rightarrow> Inr []
              | Inr items \<Rightarrow> Inr (appendRequests items [])))
      | _ \<Rightarrow> Inl (Panic ''Expected a Bucket''))"

section \<open>Notions used in the statements\<close>

text \<open>
  \<open>readyFalseFrom obj t\<close>: the ready condition of \<open>obj\<close> is false and carries the reason
  and the message of the condition \<open>t\<close>. \<open>readySummarizes obj\<close>: the ready condition is the
  summary of the four tracked negative conditions, in their priority order.
  \<open>sameSummary a b\<close>: the two objects agree on the ready condition and on the four.
\<close>

definition readyFalseFrom :: "HelmChart \<Rightarrow> ConditionType \<Rightarrow> bool" where
  "readyFalseFrom obj t =
     (case (conditions_Get obj ReadyCondition, conditions_Get obj t) of
        (Some rc, Some c) \<Rightarrow>
          Status rc = ConditionFalse \<and> Reason rc = Reason c \<and> Message rc = Message c
      | _ \<Rightarrow> False)"

definition readySummarizes :: "HelmChart \<Rightarrow> bool" where
  "readySummarizes obj \<longleftrightarrow>
     (conditions_IsFalse obj ReadyCondition \<longleftrightarrow>
        conditions_IsTrue obj BuildFailedCondition \<or> conditions_IsTrue obj FetchFailedCondition
        \<or> conditions_IsTrue obj ArtifactOutdatedCondition
        \<or> conditions_IsTrue obj ArtifactUnavailableCondition)
   \<and> (conditions_IsTrue obj ReadyCondition \<longleftrightarrow>
        \<not> (conditions_IsTrue obj BuildFailedCondition \<or> conditions_IsTrue obj FetchFailedCondition
           \<or> conditions_IsTrue obj ArtifactOutdatedCondition
           \<or> conditions_IsTrue obj ArtifactUnavailableCondition))
   \<and> (conditions_IsTrue obj BuildFailedCondition \<longrightarrow> readyFalseFrom obj BuildFailedCondition)
   \<and> (\<not> conditions_IsTrue obj BuildFailedCondition \<and> conditions_IsTrue obj FetchFailedCondition
        \<longrightarrow> readyFalseFrom obj FetchFailedCondition)
   \<and> (\<not> conditions_IsTrue obj BuildFailedCondition \<and> \<not> conditions_IsTrue obj FetchFailedCondition
        \<and> conditions_IsTrue obj ArtifactOutdatedCondition
        \<longrightarrow> readyFalseFrom obj ArtifactOutdatedCondition)
   \<and> (\<not> conditions_IsTrue obj BuildFailedCondition \<and> \<not> conditions_IsTrue obj FetchFailedCondition
        \<and> \<not> conditions_IsTrue obj ArtifactOutdatedCondition
        \<and> conditions_IsTrue obj ArtifactUnavailableCondition
        \<longrightarrow> readyFalseFrom obj ArtifactUnavailableCondition)"

definition sameSummary :: "HelmChart \<Rightarrow> HelmChart \<Rightarrow> bool" where
  "sameSummary a b \<longleftrightarrow>
     (\<forall>t \<in> set (ReadyCondition # trackedConditions). conditions_Get a t = conditions_Get b t)"

text \<open>What a pass returned: its error, the object it leaves, that object's ready
  condition, the files of the store, the effects in order, and the conditions of the
  object.\<close>

definition passError ::
    "panic + ((Result \<times> error option) \<times> HelmChart option \<times> World) \<Rightarrow> error option" where
  "passError out = (case out of Inl p \<Rightarrow> None | Inr ((result, err), obj, w) \<Rightarrow> err)"

definition passObject ::
    "panic + ((Result \<times> error option) \<times> HelmChart option \<times> World) \<Rightarrow> HelmChart option" where
  "passObject out = (case out of Inl p \<Rightarrow> None | Inr ((result, err), obj, w) \<Rightarrow> obj)"

definition passReady ::
    "panic + ((Result \<times> error option) \<times> HelmChart option \<times> World) \<Rightarrow> Condition option" where
  "passReady out =
     (case out of
        Inl p \<Rightarrow> None
      | Inr ((result, err), None, w) \<Rightarrow> None
      | Inr ((result, err), Some obj, w) \<Rightarrow> conditions_Get obj ReadyCondition)"

definition passFiles ::
    "panic + ((Result \<times> error option) \<times> HelmChart option \<times> World) \<Rightarrow> string list option" where
  "passFiles out = (case out of Inl p \<Rightarrow> None | Inr ((result, err), obj, w) \<Rightarrow> Some (Files w))"

definition passTrace ::
    "panic + ((Result \<times> error option) \<times> HelmChart option \<times> World) \<Rightarrow> Effect list" where
  "passTrace out = (case out of Inl p \<Rightarrow> [] | Inr ((result, err), obj, w) \<Rightarrow> Trace w)"

definition passConditions ::
    "panic + ((Result \<times> error option) \<times> HelmChart option \<times> World) \<Rightarrow> Condition list" where
  "passConditions out =
     (case out of
        Inl p \<Rightarrow> []
      | Inr ((result, err), None, w) \<Rightarrow> []
      | Inr ((result, err), Some obj, w) \<Rightarrow> Status_Conditions obj)"

section \<open>Example objects\<close>

text \<open>
  A store in which every operation succeeds; a chart \<open>podinfo\<close> that advertises nothing
  yet, and three more charts; a builder whose chart has version 1.2.0; a reconciler
  over them. Its source stage follows the spec ("stage success clears the corresponding
  negative condition"): it clears fetch-failed and asks for the steady-state interval.
\<close>

definition ex_storage :: Storage where
  "ex_storage =
     \<lparr>ArtifactURL = (\<lambda>a. ''http://source-controller/'' @ Path a),
      SetHostname = (\<lambda>u. u),
      MkdirAllErr = None, LockErr = None, CopyFromPathRes = Inr ''c0ffee'',
      SymlinkRes = (''http://source-controller/helmchart/default/podinfo/latest.tar.gz'', None),
      RemoveAllErr = None, RemoveAllButCurrentErr = None\<rparr>"

definition ex_chart :: HelmChart where
  "ex_chart =
     \<lparr>Kind = ''helmchart'', Name = ''podinfo'', Namespace = ''default'', Generation = 1,
      DeletionTimestamp = None, Finalizers = [SourceFinalizer], Annotations = [],
      Spec_Suspend = False, Spec_SourceRef_Kind = ''HelmRepository'',
      Spec_SourceRef_Name = ''stable'', Spec_Interval = 60, Spec_ValuesFiles = [],
      Status_Artifact = None, Status_URL = [], Status_ObservedGeneration = 1,
      Status_LastHandledReconcileAt = [], Status_Conditions = []\<rparr>"

definition ex_chart_redis :: HelmChart where
  "ex_chart_redis = ex_chart\<lparr>Name := ''redis'', Namespace := ''apps''\<rparr>"

definition ex_chart_nginx :: HelmChart where
  "ex_chart_nginx = ex_chart\<lparr>Name := ''nginx'', Spec_SourceRef_Kind := ''GitRepository''\<rparr>"

definition ex_chart_minio :: HelmChart where
  "ex_chart_minio = ex_chart\<lparr>Name := ''minio'', Spec_SourceRef_Kind := ''Bucket''\<rparr>"

definition ex_client :: Client where
  "ex_client =
     \<lparr>GetRes = (\<lambda>req. Inl (NotFoundErr ''not found'')),
      Charts = [ex_chart, ex_chart_nginx, ex_chart_redis, ex_chart_minio],
      ListErr = None, NewHelperErr = None, PatchErr = None\<rparr>"

definition ex_builder :: chartBuilder where
  "ex_builder =
     \<lparr>LoadMetadataRes = Inr \<lparr>MetaName = ''podinfo'', MetaVersion = ''1.2.0''\<rparr>,
      MergeValuesFilesErr = None, ChartSourceIsDirRes = Inr False,
      FetchMissingDependenciesRes = Inr 0, BuildRes = Inr ''/tmp/podinfo-1.2.0.tgz''\<rparr>"

definition ex_reconciler :: HelmChartReconciler where
  "ex_reconciler =
     \<lparr>Client = ex_client, Storage = ex_storage, MkdirTempErr = None,
      newChartBuilder = ex_builder,
      reconcileSource =
        (\<lambda>obj w. ((\<lparr>Requeue = False, RequeueAfter = Spec_Interval obj\<rparr>, None),
                   conditions_Delete obj FetchFailedCondition, w))\<rparr>"

definition ex_world :: World where
  "ex_world =
     \<lparr>Files = [''helmchart/default/podinfo/podinfo-1.1.0.tgz''], Locks = [], Trace = []\<rparr>"

definition ex_source :: Source where
  "ex_source =
     \<lparr>SourceName = ''stable'', SourceNamespace = ''default'',
      SourceArtifact =
        Some \<lparr>Path = ''helmrepository/default/stable/index.yaml'', URL = [],
              Revision = ''abc'', Checksum = []\<rparr>\<rparr>"

definition ex_reconciler_list_fails :: HelmChartReconciler where
  "ex_reconciler_list_fails =
     ex_reconciler\<lparr>Client := ex_client\<lparr>ListErr := Some (Err ''timeout'')\<rparr>\<rparr>"

text \<open>The chart once revision 1.1.0 is published, and once 1.2.0 is; stores to match.\<close>

definition ex_artifact_110 :: Artifact where
  "ex_artifact_110 =
     \<lparr>Path = ''helmchart/default/podinfo/podinfo-1.1.0.tgz'',
      URL = ''http://old-host/helmchart/default/podinfo/podinfo-1.1.0.tgz'',
      Revision = ''1.1.0'', Checksum = ''abc''\<rparr>"

definition ex_chart_110 :: HelmChart where
  "ex_chart_110 =
     ex_chart\<lparr>Status_Artifact := Some ex_artifact_110,
       Status_URL := ''http://old-host/helmchart/default/podinfo/latest.tar.gz'',
       Status_Conditions :=
         [\<lparr>Type = ReadyCondition, Status = ConditionTrue, Reason = ''Succeeded'',
           Message = ''Stored artifact for revision 1.1.0''\<rparr>]\<rparr>"

definition ex_world_110 :: World where
  "ex_world_110 =
     \<lparr>Files = [''helmchart/default/podinfo/podinfo-1.0.0.tgz'',
               ''helmchart/default/podinfo/podinfo-1.1.0.tgz''],
      Locks = [], Trace = []\<rparr>"

definition ex_artifact_120 :: Artifact where
  "ex_artifact_120 =
     \<lparr>Path = ''helmchart/default/podinfo/podinfo-1.2.0.tgz'',
      URL = ''http://source-controller/helmchart/default/podinfo/podinfo-1.2.0.tgz'',
      Revision = ''1.2.0'', Checksum = ''c0ffee''\<rparr>"

definition ex_built_120 :: Artifact where
  "ex_built_120 = ex_artifact_120\<lparr>Checksum := []\<rparr>"

definition ex_chart_120 :: HelmChart where
  "ex_chart_120 =
     ex_chart\<lparr>Status_Artifact := Some ex_artifact_120,
       Status_URL := ''http://source-controller/helmchart/default/podinfo/latest.tar.gz'',
       Status_Conditions :=
         [\<lparr>Type = ReadyCondition, Status = ConditionTrue, Reason = ''Succeeded'',
           Message = ''Stored artifact for revision 1.2.0''\<rparr>]\<rparr>"

definition ex_chart_120_edited :: HelmChart where
  "ex_chart_120_edited = ex_chart_120\<lparr>Generation := 2, Status_Conditions := []\<rparr>"

definition ex_world_120 :: World where
  "ex_world_120 =
     \<lparr>Files = [''helmchart/default/podinfo/podinfo-1.1.0.tgz'',
               ''helmchart/default/podinfo/podinfo-1.2.0.tgz''],
      Locks = [], Trace = []\<rparr>"

text \<open>A store that holds the published revision 1.2.0 and nothing else.\<close>

definition ex_world_current :: World where
  "ex_world_current =
     \<lparr>Files = [''helmchart/default/podinfo/podinfo-1.2.0.tgz''], Locks = [], Trace = []\<rparr>"



text \<open>A chart under deletion, and a store that holds three of its artifacts and one of
  another chart.\<close>

definition ex_chart_deleted :: HelmChart where
  "ex_chart_deleted = ex_chart_110\<lparr>DeletionTimestamp := Some 1700000000\<rparr>"

definition ex_world_three :: World where
  "ex_world_three =
     \<lparr>Files = [''helmchart/default/podinfo/podinfo-1.0.0.tgz'',
               ''helmchart/default/redis/redis-6.0.0.tgz'',
               ''helmchart/default/podinfo/podinfo-1.0.1.tgz'',
               ''helmchart/default/podinfo/podinfo-1.1.0.tgz''],
      Locks = [], Trace = []\<rparr>"

text \<open>A chart created suspended, with no condition yet, and a chart with a stale
  artifact-outdated condition.\<close>

definition ex_chart_suspended :: HelmChart where
  "ex_chart_suspended = ex_chart\<lparr>Finalizers := [], Spec_Suspend := True\<rparr>"

definition ex_chart_outdated :: HelmChart where
  "ex_chart_outdated =
     ex_chart_110\<lparr>Status_Conditions :=
         [\<lparr>Type = ReadyCondition, Status = ConditionTrue, Reason = ''Succeeded'',
           Message = ''Stored artifact for revision 1.1.0''\<rparr>,
          \<lparr>Type = ArtifactOutdatedCondition, Status = ConditionTrue, Reason = ''NewRevision'',
           Message = ''new upstream revision''\<rparr>]\<rparr>"

text \<open>Reconcilers whose accessor returns a given chart, and reconcilers in which one
  operation fails. A failing source stage follows the spec ("each stage's failure sets a
  stage-specific negative condition"): it marks fetch-failed.\<close>

definition ex_reconciler_get :: "HelmChart \<Rightarrow> HelmChartReconciler" where
  "ex_reconciler_get obj = ex_reconciler\<lparr>Client := ex_client\<lparr>GetRes := (\<lambda>req. Inr obj)\<rparr>\<rparr>"


definition ex_reconciler_open_fails :: HelmChartReconciler where
  "ex_reconciler_open_fails =
     (ex_reconciler_get ex_chart_120)
       \<lparr>Storage := ex_storage\<lparr>CopyFromPathRes := Inl (Err ''open : no such file or directory'')\<rparr>\<rparr>"

definition ex_reconciler_mkdir_fails :: HelmChartReconciler where
  "ex_reconciler_mkdir_fails =
     ex_reconciler\<lparr>Storage := ex_storage\<lparr>MkdirAllErr := Some (Err ''read-only file system'')\<rparr>\<rparr>"

definition ex_reconciler_removeall_fails :: HelmChartReconciler where
  "ex_reconciler_removeall_fails =
     ex_reconciler\<lparr>Storage := ex_storage\<lparr>RemoveAllErr := Some (Err ''permission denied'')\<rparr>\<rparr>"

definition ex_reconciler_gc_fails :: HelmChartReconciler where
  "ex_reconciler_gc_fails =
     ex_reconciler\<lparr>Storage := ex_storage\<lparr>RemoveAllButCurrentErr := Some (Err ''disk failure'')\<rparr>\<rparr>"

definition ex_reconciler_source_fails :: HelmChartReconciler where
  "ex_reconciler_source_fails =
     (ex_reconciler_get ex_chart_outdated)
       \<lparr>reconcileSource :=
          (\<lambda>obj w. ((Result_empty, Some (Err ''secret not found'')),
                     conditions_MarkTrue obj FetchFailedCondition ''AuthenticationFailed''
                       ''secret not found'', w))\<rparr>"

section \<open>Unfolding the definitions\<close>

text \<open>
  The definitions that the evaluation of the publish stage, of \<open>reconcile\<close> and of a
  whole pass on a concrete object unfolds.
\<close>

lemmas publish_defs =
  reconcileArtifact_def publishArtifact_def restoreReady_def Storage_MkdirAll_def
  Storage_Lock_def unlock_def Storage_CopyFromPath_def Storage_Symlink_def emit_def
  GetArtifact_def GetRequeueAfter_def Result_empty_def Errorf_def
  StorageOperationFailedReason_def SucceededReason_def conditions_Get_def
  conditions_IsTrue_def conditions_Set_def conditions_Delete_def conditions_MarkTrue_def

lemmas reconcile_defs =
  reconcile_def reconcileStorage_def garbageCollect_def verifyArtifact_def
  reconcileAfterStorage_def reconcileChart_def buildChart_def zeroArtifact_def
  reconcileArtifact_def publishArtifact_def restoreReady_def IsZero_def Result_empty_def
  GetArtifact_def GetRequeueAfter_def GetValuesFiles_def Errorf_def
  StorageOperationFailedReason_def SucceededReason_def emit_def dirname_def ArtifactDir_def
  ArtifactPath_def Storage_SetArtifactURL_def Storage_NewArtifactFor_def
  Storage_ArtifactExist_def Storage_RemoveAll_def Storage_RemoveAllButCurrent_def
  Storage_MkdirAll_def Storage_Lock_def unlock_def Storage_CopyFromPath_def
  Storage_Symlink_def conditions_Get_def conditions_IsTrue_def conditions_Set_def
  conditions_Delete_def conditions_MarkTrue_def conditions_MarkReconciling_def

lemmas Reconcile_defs =
  Reconcile_def Reconcile_deferred_def patchObject_def Patch_def NewAggregate_def
  List.map_filter_def ReconcileAnnotationValue_def ReconcileRequestAnnotation_def
  ContainsFinalizer_def AddFinalizer_def RemoveFinalizer_def SourceFinalizer_def
  reconcileDelete_def trackedConditions_def signals_problem_def conditions_SetSummary_def
  conditions_MarkFalse_def conditions_MarkStalled_def conditions_IsFalse_def
  reconcile_def reconcileStorage_def garbageCollect_def verifyArtifact_def
  reconcileAfterStorage_def reconcileChart_def buildChart_def zeroArtifact_def
  reconcileArtifact_def publishArtifact_def restoreReady_def IsZero_def Result_empty_def
  GetArtifact_def GetRequeueAfter_def GetValuesFiles_def Errorf_def
  StorageOperationFailedReason_def SucceededReason_def emit_def dirname_def ArtifactDir_def
  ArtifactPath_def Storage_SetArtifactURL_def Storage_NewArtifactFor_def
  Storage_ArtifactExist_def Storage_RemoveAll_def Storage_RemoveAllButCurrent_def
  Storage_MkdirAll_def Storage_Lock_def unlock_def Storage_CopyFromPath_def
  Storage_Symlink_def conditions_Get_def conditions_IsTrue_def conditions_Set_def
  conditions_Delete_def conditions_MarkTrue_def conditions_MarkReconciling_def

section \<open>Conditions: lookup after an update\<close>

lemma find_Type_replace:
  "find (\<lambda>d. Type d = t) (map (\<lambda>d. if Type d = Type c then c else d) xs) =
     (if t = Type c then (if \<exists>d \<in> set xs. Type d = Type c then Some c else None)
      else find (\<lambda>d. Type d = t) xs)"
  by (induction xs) auto

lemma find_Type_append:
  "find (\<lambda>d. Type d = t) (xs @ [c]) =
     (case find (\<lambda>d. Type d = t) xs of
        Some x \<Rightarrow> Some x
      | None \<Rightarrow> if Type c = t then Some c else None)"
  by (induction xs) auto

lemma find_Type_absent:
  "\<not> (\<exists>d \<in> set xs. Type d = t) \<Longrightarrow> find (\<lambda>d. Type d = t) xs = None"
  by (induction xs) auto

lemma find_Type_filter:
  "find (\<lambda>d. Type d = t) (filter (\<lambda>c. Type c \<noteq> t') xs) =
     (if t = t' then None else find (\<lambda>d. Type d = t) xs)"
  by (induction xs) auto

lemma Get_Set:
  "conditions_Get (conditions_Set obj c) t =
     (if t = Type c then Some c else conditions_Get obj t)"
  by (auto simp: conditions_Get_def conditions_Set_def find_Type_replace find_Type_append
      find_Type_absent split: option.splits)

lemma Get_Delete:
  "conditions_Get (conditions_Delete obj t') t = (if t = t' then None else conditions_Get obj t)"
  by (simp add: conditions_Get_def conditions_Delete_def find_Type_filter)

lemma Get_MarkTrue:
  "conditions_Get (conditions_MarkTrue obj t' reason message) t =
     (if t = t' then Some \<lparr>Type = t', Status = ConditionTrue, Reason = reason, Message = message\<rparr>
      else conditions_Get obj t)"
  by (simp add: conditions_MarkTrue_def Get_Set)

lemma Get_MarkFalse:
  "conditions_Get (conditions_MarkFalse obj t' reason message) t =
     (if t = t' then Some \<lparr>Type = t', Status = ConditionFalse, Reason = reason, Message = message\<rparr>
      else conditions_Get obj t)"
  by (simp add: conditions_MarkFalse_def Get_Set)

lemma conditions_Get_cong:
  "Status_Conditions a = Status_Conditions b \<Longrightarrow> conditions_Get a t = conditions_Get b t"
  by (simp add: conditions_Get_def)

lemma IsTrue_MarkTrue: "conditions_IsTrue (conditions_MarkTrue obj t reason message) t"
  by (simp add: conditions_IsTrue_def Get_MarkTrue)

text \<open>An update of the conditions leaves the other fields of the object alone.\<close>

lemma Status_Artifact_MarkTrue:
  "Status_Artifact (conditions_MarkTrue obj t reason message) = Status_Artifact obj"
  by (simp add: conditions_MarkTrue_def conditions_Set_def)

lemma Status_Artifact_Delete: "Status_Artifact (conditions_Delete obj t) = Status_Artifact obj"
  by (simp add: conditions_Delete_def)

lemma MarkReconciling_frame:
  "DeletionTimestamp (conditions_MarkReconciling obj reason message) = DeletionTimestamp obj"
  "GetArtifact (conditions_MarkReconciling obj reason message) = GetArtifact obj"
  "GetRequeueAfter (conditions_MarkReconciling obj reason message) = GetRequeueAfter obj"
  by (simp_all add: conditions_MarkReconciling_def conditions_MarkTrue_def conditions_Set_def
      GetArtifact_def GetRequeueAfter_def)

section \<open>The summary of readiness\<close>

lemma readySummarizes_cong:
  "sameSummary a b \<Longrightarrow> readySummarizes a = readySummarizes b"
  by (simp add: sameSummary_def readySummarizes_def readyFalseFrom_def conditions_IsTrue_def
      conditions_IsFalse_def trackedConditions_def)

lemma SetSummary_tracked:
  "t \<noteq> ReadyCondition \<Longrightarrow>
   conditions_Get (conditions_SetSummary obj ReadyCondition inScope negative) t = conditions_Get obj t"
  by (simp add: conditions_SetSummary_def Get_MarkTrue Get_MarkFalse
      split: option.splits)

lemma SetSummary_ready_problem:
  assumes "find (signals_problem obj negative) inScope = Some t"
    and "conditions_Get obj t = Some c"
  shows "conditions_Get (conditions_SetSummary obj ReadyCondition inScope negative) ReadyCondition =
     Some \<lparr>Type = ReadyCondition, Status = ConditionFalse, Reason = Reason c, Message = Message c\<rparr>"
  using assms by (simp add: conditions_SetSummary_def Get_MarkFalse)

lemma SetSummary_ready_fine:
  assumes "find (signals_problem obj negative) inScope = None"
  shows "conditions_IsTrue (conditions_SetSummary obj ReadyCondition inScope negative) ReadyCondition"
  using assms
  by (simp add: conditions_SetSummary_def conditions_IsTrue_def Get_MarkTrue)

lemma SetSummary_summarizes:
  "readySummarizes (conditions_SetSummary obj ReadyCondition trackedConditions trackedConditions)"
proof (cases "find (signals_problem obj trackedConditions) trackedConditions")
  case None
  then have none: "\<forall>t \<in> set trackedConditions. \<not> conditions_IsTrue obj t"
    by (auto simp: find_None_iff signals_problem_def)
  have ready: "conditions_IsTrue
      (conditions_SetSummary obj ReadyCondition trackedConditions trackedConditions) ReadyCondition"
    by (rule SetSummary_ready_fine [OF None])
  show ?thesis
    using none ready
    by (auto simp: readySummarizes_def conditions_IsTrue_def conditions_IsFalse_def
        SetSummary_tracked trackedConditions_def split: option.splits)
next
  case (Some t)
  then have t: "t \<in> set trackedConditions" "conditions_IsTrue obj t"
    by (auto simp: find_Some_iff signals_problem_def split: if_splits)
  then obtain c where c: "conditions_Get obj t = Some c" "Status c = ConditionTrue"
    by (auto simp: conditions_IsTrue_def split: option.splits)
  note rdy = SetSummary_ready_problem [OF Some c(1)]
  from Some have first:
    "(t = BuildFailedCondition)
   \<or> (t = FetchFailedCondition \<and> \<not> conditions_IsTrue obj BuildFailedCondition)
   \<or> (t = ArtifactOutdatedCondition \<and> \<not> conditions_IsTrue obj BuildFailedCondition
        \<and> \<not> conditions_IsTrue obj FetchFailedCondition)
   \<or> (t = ArtifactUnavailableCondition \<and> \<not> conditions_IsTrue obj BuildFailedCondition
        \<and> \<not> conditions_IsTrue obj FetchFailedCondition
        \<and> \<not> conditions_IsTrue obj ArtifactOutdatedCondition)"
    by (auto simp: trackedConditions_def signals_problem_def split: if_splits)
  show ?thesis
    using t c rdy first
    by (auto simp: readySummarizes_def readyFalseFrom_def conditions_IsTrue_def
        conditions_IsFalse_def SetSummary_tracked trackedConditions_def)
qed

lemma sameSummary_conditions:
  "Status_Conditions a = Status_Conditions b \<Longrightarrow> sameSummary a b"
  by (simp add: sameSummary_def conditions_Get_def)

lemma sameSummary_Delete_Reconciling: "sameSummary (conditions_Delete obj ReconcilingCondition) obj"
  by (simp add: sameSummary_def Get_Delete trackedConditions_def)

lemma sameSummary_Delete_Stalled: "sameSummary (conditions_Delete obj StalledCondition) obj"
  by (simp add: sameSummary_def Get_Delete trackedConditions_def)

lemma sameSummary_MarkStalled: "sameSummary (conditions_MarkStalled obj reason message) obj"
  by (simp add: sameSummary_def conditions_MarkStalled_def Get_MarkTrue trackedConditions_def)

lemma patchObject_result:
  "\<exists>res obj'. patchObject r obj observed result retErr w = (res, obj', w)
     \<and> Status_Conditions obj' = Status_Conditions obj"
  by (simp add: patchObject_def Patch_def split: option.splits)

lemma readySummarizes_ready_present:
  assumes "readySummarizes obj"
  shows "conditions_Get obj ReadyCondition \<noteq> None"
proof -
  have "conditions_IsFalse obj ReadyCondition \<or> conditions_IsTrue obj ReadyCondition"
    using assms unfolding readySummarizes_def by blast
  then show ?thesis
    by (auto simp: conditions_IsTrue_def conditions_IsFalse_def split: option.splits)
qed

lemma Reconcile_deferred_summarizes:
  "\<exists>res obj' w'. Reconcile_deferred r obj result retErr w = Inr (res, obj', w')
     \<and> readySummarizes obj'"
proof -
  define obj1 where "obj1 = (case ReconcileAnnotationValue (Annotations obj) of
      Some v \<Rightarrow> obj\<lparr>Status_LastHandledReconcileAt := v\<rparr> | None \<Rightarrow> obj)"
  define obj2 where
    "obj2 = conditions_SetSummary obj1 ReadyCondition trackedConditions trackedConditions"
  have s2: "readySummarizes obj2"
    unfolding obj2_def by (rule SetSummary_summarizes)
  show ?thesis
  proof (cases "retErr = None \<and> (IsZero result \<or> \<not> Requeue result)")
    case False
    obtain res obj' where p: "patchObject r obj2 False result retErr w = (res, obj', w)"
      and c: "Status_Conditions obj' = Status_Conditions obj2"
      using patchObject_result by blast
    have "readySummarizes obj'"
      using s2 readySummarizes_cong [OF sameSummary_conditions [OF c]] by simp
    moreover have "Reconcile_deferred r obj result retErr w =
        Inr (patchObject r obj2 False result retErr w)"
      using False unfolding Reconcile_deferred_def obj1_def obj2_def Let_def
      by (simp only: if_False)
    ultimately show ?thesis using p by simp
  next
    case True
    define obj3 where "obj3 = conditions_Delete obj2 ReconcilingCondition"
    have s3: "readySummarizes obj3"
      using s2 readySummarizes_cong [OF sameSummary_Delete_Reconciling, of obj2]
      by (simp add: obj3_def)
    then obtain rc where rc: "conditions_Get obj3 ReadyCondition = Some rc"
      using readySummarizes_ready_present by blast
    define obj4 where "obj4 = (case Status rc of
        ConditionFalse \<Rightarrow> conditions_MarkStalled obj3 (Reason rc) (Message rc)
      | ConditionTrue \<Rightarrow> conditions_Delete obj3 StalledCondition
      | ConditionUnknown \<Rightarrow> obj3)"
    have "sameSummary obj4 obj3"
      by (cases "Status rc")
        (simp_all add: obj4_def sameSummary_Delete_Stalled sameSummary_MarkStalled
          sameSummary_conditions)
    then have s4: "readySummarizes obj4"
      using s3 readySummarizes_cong by blast
    obtain res obj' where p: "patchObject r obj4 True result retErr w = (res, obj', w)"
      and c: "Status_Conditions obj' = Status_Conditions obj4"
      using patchObject_result by blast
    have "readySummarizes obj'"
      using s4 readySummarizes_cong [OF sameSummary_conditions [OF c]] by simp
    moreover have "Reconcile_deferred r obj result retErr w =
        Inr (patchObject r obj4 True result retErr w)"
      unfolding Reconcile_deferred_def Let_def obj4_def
      using rc [unfolded obj3_def obj2_def obj1_def]
      by (simp only: if_P [OF True] obj3_def obj2_def obj1_def option.case)
    ultimately show ?thesis using p by simp
  qed
qed

text \<open>
  C2, as amended. A pass that gets past admission (the object is found, it is not
  suspended, the patch helper is created) never panics, and the object it leaves has a
  ready condition that is false if and only if one of the four tracked negative
  conditions (build-failed, fetch-failed, artifact-outdated, artifact-unavailable) is
  true, with the reason and the message of the first true one in that order; otherwise
  the ready condition is true.
\<close>

theorem Reconcile_ready_summary:
  assumes "GetRes (Client r) req = Inr obj"
    and "\<not> Spec_Suspend obj"
    and "NewHelperErr (Client r) = None"
  shows "\<exists>res obj' w'. Reconcile r req w = Inr (res, Some obj', w')
     \<and> (conditions_IsFalse obj' ReadyCondition \<longleftrightarrow>
          conditions_IsTrue obj' BuildFailedCondition
          \<or> conditions_IsTrue obj' FetchFailedCondition
          \<or> conditions_IsTrue obj' ArtifactOutdatedCondition
          \<or> conditions_IsTrue obj' ArtifactUnavailableCondition)
     \<and> (conditions_IsTrue obj' ReadyCondition \<longleftrightarrow>
          \<not> (conditions_IsTrue obj' BuildFailedCondition
             \<or> conditions_IsTrue obj' FetchFailedCondition
             \<or> conditions_IsTrue obj' ArtifactOutdatedCondition
             \<or> conditions_IsTrue obj' ArtifactUnavailableCondition))
     \<and> (conditions_IsTrue obj' BuildFailedCondition
          \<longrightarrow> readyFalseFrom obj' BuildFailedCondition)
     \<and> (\<not> conditions_IsTrue obj' BuildFailedCondition
          \<and> conditions_IsTrue obj' FetchFailedCondition
          \<longrightarrow> readyFalseFrom obj' FetchFailedCondition)
     \<and> (\<not> conditions_IsTrue obj' BuildFailedCondition
          \<and> \<not> conditions_IsTrue obj' FetchFailedCondition
          \<and> conditions_IsTrue obj' ArtifactOutdatedCondition
          \<longrightarrow> readyFalseFrom obj' ArtifactOutdatedCondition)
     \<and> (\<not> conditions_IsTrue obj' BuildFailedCondition
          \<and> \<not> conditions_IsTrue obj' FetchFailedCondition
          \<and> \<not> conditions_IsTrue obj' ArtifactOutdatedCondition
          \<and> conditions_IsTrue obj' ArtifactUnavailableCondition
          \<longrightarrow> readyFalseFrom obj' ArtifactUnavailableCondition)"
proof -
  obtain result retErr obj1 w1 where stage:
    "(if \<not> ContainsFinalizer obj SourceFinalizer
      then ((\<lparr>Requeue = True, RequeueAfter = 0\<rparr>, None), AddFinalizer obj SourceFinalizer, w)
      else if \<not> Time_IsZero (DeletionTimestamp obj) then reconcileDelete r obj w
      else reconcile r obj w) = ((result, retErr), obj1, w1)"
    by (cases "(if \<not> ContainsFinalizer obj SourceFinalizer
      then ((\<lparr>Requeue = True, RequeueAfter = 0\<rparr>, None), AddFinalizer obj SourceFinalizer, w)
      else if \<not> Time_IsZero (DeletionTimestamp obj) then reconcileDelete r obj w
      else reconcile r obj w)") auto
  obtain res obj' w' where d: "Reconcile_deferred r obj1 result retErr w1 = Inr (res, obj', w')"
    and s: "readySummarizes obj'"
    using Reconcile_deferred_summarizes by blast
  have "Reconcile r req w = Inr (res, Some obj', w')"
    using assms d by (simp add: Reconcile_def stage)
  moreover note s [unfolded readySummarizes_def]
  ultimately show ?thesis
    by (intro exI [of _ res] exI [of _ obj'] exI [of _ w'] conjI) simp_all
qed

text \<open>
  The source stage fails and marks fetch-failed on a chart that still carries
  artifact-outdated: the ready condition becomes false with the reason of fetch-failed,
  the one of higher priority.
\<close>

theorem Reconcile_ready_summary_witness:
  "GetRes (Client ex_reconciler_source_fails) (''default'', ''podinfo'') = Inr ex_chart_outdated
   \<and> \<not> Spec_Suspend ex_chart_outdated
   \<and> NewHelperErr (Client ex_reconciler_source_fails) = None
   \<and> passReady (Reconcile ex_reconciler_source_fails (''default'', ''podinfo'') ex_world)
       = Some \<lparr>Type = ReadyCondition, Status = ConditionFalse, Reason = ''AuthenticationFailed'',
               Message = ''secret not found''\<rparr>"
proof -
  have a: "GetRes (Client ex_reconciler_source_fails) (''default'', ''podinfo'')
      = Inr ex_chart_outdated"
    and b: "\<not> Spec_Suspend ex_chart_outdated"
    and c: "NewHelperErr (Client ex_reconciler_source_fails) = None"
    by (simp_all add: ex_reconciler_source_fails_def ex_reconciler_get_def ex_reconciler_def
        ex_client_def ex_chart_outdated_def ex_chart_110_def ex_chart_def)
  obtain res obj' w' where
    out: "Reconcile ex_reconciler_source_fails (''default'', ''podinfo'') ex_world
      = Inr (res, Some obj', w')"
    and ff: "\<not> conditions_IsTrue obj' BuildFailedCondition
          \<and> conditions_IsTrue obj' FetchFailedCondition
          \<longrightarrow> readyFalseFrom obj' FetchFailedCondition"
    using Reconcile_ready_summary [OF a b c, of ex_world] by blast
  have ev: "passObject (Reconcile ex_reconciler_source_fails (''default'', ''podinfo'') ex_world)
      = Some obj' \<Longrightarrow>
    conditions_Get obj' BuildFailedCondition = None
    \<and> conditions_Get obj' FetchFailedCondition =
        Some \<lparr>Type = FetchFailedCondition, Status = ConditionTrue,
              Reason = ''AuthenticationFailed'', Message = ''secret not found''\<rparr>"
    by (simp add: passObject_def Reconcile_defs ex_reconciler_source_fails_def
        ex_reconciler_get_def ex_reconciler_def ex_client_def ex_storage_def ex_builder_def
        ex_chart_outdated_def ex_chart_110_def ex_artifact_110_def ex_chart_def ex_world_def)
      auto
  have po: "passObject (Reconcile ex_reconciler_source_fails (''default'', ''podinfo'') ex_world)
      = Some obj'"
    by (simp add: out passObject_def split: prod.splits)
  from ev [OF po] ff have "readyFalseFrom obj' FetchFailedCondition"
    by (simp add: conditions_IsTrue_def)
  with ev [OF po] obtain rc where rc: "conditions_Get obj' ReadyCondition = Some rc"
    "Status rc = ConditionFalse" "Reason rc = ''AuthenticationFailed''"
    "Message rc = ''secret not found''"
    by (auto simp: readyFalseFrom_def split: option.splits)
  have "Type rc = ReadyCondition"
    using rc(1) by (auto simp: conditions_Get_def find_Some_iff)
  with rc have "conditions_Get obj' ReadyCondition =
      Some \<lparr>Type = ReadyCondition, Status = ConditionFalse, Reason = ''AuthenticationFailed'',
            Message = ''secret not found''\<rparr>"
    by simp
  then show ?thesis
    using a b c out by (cases res) (simp add: passReady_def)
qed

text \<open>
  C2 as stated fails for a pass that stops at admission: a chart created suspended is
  returned as it is, with none of the four conditions true and no ready condition at
  all, so ready is not true.
\<close>

theorem Reconcile_suspended_counterexample:
  "Spec_Suspend ex_chart_suspended
   \<and> passObject (Reconcile (ex_reconciler_get ex_chart_suspended) (''default'', ''podinfo'')
        ex_world) = Some ex_chart_suspended
   \<and> \<not> conditions_IsTrue ex_chart_suspended BuildFailedCondition
   \<and> \<not> conditions_IsTrue ex_chart_suspended FetchFailedCondition
   \<and> \<not> conditions_IsTrue ex_chart_suspended ArtifactOutdatedCondition
   \<and> \<not> conditions_IsTrue ex_chart_suspended ArtifactUnavailableCondition
   \<and> \<not> conditions_IsTrue ex_chart_suspended ReadyCondition
   \<and> passReady (Reconcile (ex_reconciler_get ex_chart_suspended) (''default'', ''podinfo'')
        ex_world) = None"
  by (simp add: passObject_def passReady_def Reconcile_def conditions_IsTrue_def
      conditions_Get_def ex_reconciler_get_def ex_reconciler_def ex_client_def
      ex_chart_suspended_def ex_chart_def)

section \<open>Garbage collection and deletion: properties\<close>

text \<open>
  C10. For an object that is not under deletion and advertises no artifact,
  \<open>garbageCollect\<close> returns \<open>nil\<close> and does nothing: no call to the store, no event, and
  the object, its status and the store are as before, whatever artifacts of the object
  the store still holds.
\<close>

theorem garbageCollect_no_artifact:
  assumes "Time_IsZero (DeletionTimestamp obj)" and "GetArtifact obj = None"
  shows "garbageCollect r obj w = (None, obj, w)"
  using assms by (simp add: garbageCollect_def)

theorem garbageCollect_no_artifact_witness:
  "Time_IsZero (DeletionTimestamp ex_chart) \<and> GetArtifact ex_chart = None
   \<and> ''helmchart/default/podinfo/podinfo-1.1.0.tgz'' \<in> set (Files ex_world)
   \<and> garbageCollect ex_reconciler ex_chart ex_world = (None, ex_chart, ex_world)"
proof -
  have a: "Time_IsZero (DeletionTimestamp ex_chart)"
    by (simp add: ex_chart_def)
  have b: "GetArtifact ex_chart = None"
    by (simp add: ex_chart_def GetArtifact_def)
  show ?thesis
    using a b garbageCollect_no_artifact [OF a b, of ex_reconciler ex_world]
    by (simp add: ex_world_def)
qed

lemma dirname_append_file:
  assumes "CHR ''/'' \<notin> set f"
  shows "dirname (d @ ''/'' @ f) = d"
proof -
  have "dropWhile (\<lambda>c. c \<noteq> CHR ''/'') (rev f @ CHR ''/'' # rev d) = CHR ''/'' # rev d"
    using assms by (subst dropWhile_append2) auto
  then show ?thesis
    by (simp add: dirname_def)
qed

lemma dirname_wildcard:
  "dirname (Path (Storage_NewArtifactFor s kind obj revision ''*'')) =
     ArtifactDir kind (Namespace obj) (Name obj)"
  using dirname_append_file [of "''*''" "ArtifactDir kind (Namespace obj) (Name obj)"]
  by (simp add: Storage_NewArtifactFor_def Storage_SetArtifactURL_def ArtifactPath_def)

lemma garbageCollect_teardown_fails:
  assumes "\<not> Time_IsZero (DeletionTimestamp obj)" and "RemoveAllErr (Storage r) = Some err"
  shows "garbageCollect r obj w =
     (Some err, obj,
      emit (Eventf EventSeverityError ''GarbageCollectionFailed''
              (''Garbage collection for deleted resource failed: '' @ Error err))
        (emit (OpRemoveAll (Storage_NewArtifactFor (Storage r) (Kind obj) obj [] ''*'')) w))"
  using assms by (simp add: garbageCollect_def Storage_RemoveAll_def)

lemma garbageCollect_teardown_succeeds:
  assumes "\<not> Time_IsZero (DeletionTimestamp obj)" and "RemoveAllErr (Storage r) = None"
  shows "garbageCollect r obj w =
     (None, obj\<lparr>Status_Artifact := None\<rparr>,
      emit (Eventf EventSeverityInfo ''GarbageCollectionSucceeded''
              ''Garbage collected artifacts for deleted resource'')
        ((emit (OpRemoveAll (Storage_NewArtifactFor (Storage r) (Kind obj) obj [] ''*'')) w)
           \<lparr>Files := filter (\<lambda>p. dirname p \<noteq> ArtifactDir (Kind obj) (Namespace obj) (Name obj))
                        (Files w)\<rparr>))"
  using assms by (simp add: garbageCollect_def Storage_RemoveAll_def dirname_wildcard emit_def)

text \<open>
  C3. For an object marked for deletion: if the removal of its artifacts fails,
  \<open>reconcileDelete\<close> returns that error and leaves the object as it was, finalizer
  included; if it succeeds, the store was asked to remove by the wildcard selector of
  the object's directory, it holds no file of that directory any more (and every other
  file still), the advertised artifact is cleared, and the finalizer is removed from the
  object so cleared.
\<close>

theorem reconcileDelete_teardown:
  assumes "\<not> Time_IsZero (DeletionTimestamp obj)"
  shows "(\<forall>err. RemoveAllErr (Storage r) = Some err \<longrightarrow>
            fst (reconcileDelete r obj w) = (Result_empty, Some err)
          \<and> fst (snd (reconcileDelete r obj w)) = obj)
       \<and> (RemoveAllErr (Storage r) = None \<longrightarrow>
            fst (reconcileDelete r obj w) = (Result_empty, None)
          \<and> fst (snd (reconcileDelete r obj w)) =
              RemoveFinalizer (obj\<lparr>Status_Artifact := None\<rparr>) SourceFinalizer
          \<and> Status_Artifact (fst (snd (reconcileDelete r obj w))) = None
          \<and> \<not> ContainsFinalizer (fst (snd (reconcileDelete r obj w))) SourceFinalizer
          \<and> Files (snd (snd (reconcileDelete r obj w))) =
              filter (\<lambda>p. dirname p \<noteq> ArtifactDir (Kind obj) (Namespace obj) (Name obj)) (Files w)
          \<and> filter (\<lambda>p. dirname p = ArtifactDir (Kind obj) (Namespace obj) (Name obj))
              (Files (snd (snd (reconcileDelete r obj w)))) = []
          \<and> OpRemoveAll (Storage_NewArtifactFor (Storage r) (Kind obj) obj [] ''*'')
              \<in> set (Trace (snd (snd (reconcileDelete r obj w)))))"
proof (intro conjI allI impI)
  fix err
  assume "RemoveAllErr (Storage r) = Some err"
  note gc = garbageCollect_teardown_fails [OF assms this]
  show "fst (reconcileDelete r obj w) = (Result_empty, Some err)"
    by (simp add: reconcileDelete_def gc)
  show "fst (snd (reconcileDelete r obj w)) = obj"
    by (simp add: reconcileDelete_def gc)
next
  assume "RemoveAllErr (Storage r) = None"
  note gc = garbageCollect_teardown_succeeds [OF assms this]
  show "fst (reconcileDelete r obj w) = (Result_empty, None)"
    by (simp add: reconcileDelete_def gc)
  show "fst (snd (reconcileDelete r obj w)) =
      RemoveFinalizer (obj\<lparr>Status_Artifact := None\<rparr>) SourceFinalizer"
    by (simp add: reconcileDelete_def gc)
  show "Status_Artifact (fst (snd (reconcileDelete r obj w))) = None"
    by (simp add: reconcileDelete_def gc RemoveFinalizer_def)
  show "\<not> ContainsFinalizer (fst (snd (reconcileDelete r obj w))) SourceFinalizer"
    by (simp add: reconcileDelete_def gc RemoveFinalizer_def ContainsFinalizer_def)
  show "Files (snd (snd (reconcileDelete r obj w))) =
      filter (\<lambda>p. dirname p \<noteq> ArtifactDir (Kind obj) (Namespace obj) (Name obj)) (Files w)"
    by (simp add: reconcileDelete_def gc emit_def)
  show "filter (\<lambda>p. dirname p = ArtifactDir (Kind obj) (Namespace obj) (Name obj))
      (Files (snd (snd (reconcileDelete r obj w)))) = []"
    by (simp add: reconcileDelete_def gc emit_def filter_empty_conv)
  show "OpRemoveAll (Storage_NewArtifactFor (Storage r) (Kind obj) obj [] ''*'')
      \<in> set (Trace (snd (snd (reconcileDelete r obj w))))"
    by (simp add: reconcileDelete_def gc emit_def)
qed

theorem reconcileDelete_teardown_witness:
  "\<not> Time_IsZero (DeletionTimestamp ex_chart_deleted)
   \<and> RemoveAllErr (Storage ex_reconciler_removeall_fails) = Some (Err ''permission denied'')
   \<and> snd (fst (reconcileDelete ex_reconciler_removeall_fails ex_chart_deleted ex_world_three))
       = Some (Err ''permission denied'')
   \<and> ContainsFinalizer
        (fst (snd (reconcileDelete ex_reconciler_removeall_fails ex_chart_deleted ex_world_three)))
        SourceFinalizer
   \<and> RemoveAllErr (Storage ex_reconciler) = None
   \<and> snd (fst (reconcileDelete ex_reconciler ex_chart_deleted ex_world_three)) = None
   \<and> Files (snd (snd (reconcileDelete ex_reconciler ex_chart_deleted ex_world_three)))
       = [''helmchart/default/redis/redis-6.0.0.tgz'']
   \<and> Status_Artifact (fst (snd (reconcileDelete ex_reconciler ex_chart_deleted ex_world_three)))
       = None
   \<and> Finalizers (fst (snd (reconcileDelete ex_reconciler ex_chart_deleted ex_world_three))) = []"
proof -
  have a: "\<not> Time_IsZero (DeletionTimestamp ex_chart_deleted)"
    by (simp add: ex_chart_deleted_def)
  have b: "RemoveAllErr (Storage ex_reconciler_removeall_fails) = Some (Err ''permission denied'')"
    by (simp add: ex_reconciler_removeall_fails_def)
  have c: "RemoveAllErr (Storage ex_reconciler) = None"
    by (simp add: ex_reconciler_def ex_storage_def)
  show ?thesis
    using a b c
      reconcileDelete_teardown [OF a, of ex_reconciler_removeall_fails ex_world_three]
      reconcileDelete_teardown [OF a, of ex_reconciler ex_world_three]
    by (simp add: ex_chart_deleted_def ex_chart_110_def ex_chart_def ex_world_three_def
        RemoveFinalizer_def ContainsFinalizer_def SourceFinalizer_def dirname_def
        ArtifactDir_def Result_empty_def)
qed

section \<open>The storage stage\<close>

text \<open>
  The retain-current sweep of an object that advertises an artifact: the object is left
  alone, and the advertised artifact is in the store afterwards exactly if it was before.
\<close>

lemma garbageCollect_retain:
  assumes "Time_IsZero (DeletionTimestamp obj)" and "GetArtifact obj = Some a"
  shows "\<exists>w1. garbageCollect r obj w = (RemoveAllButCurrentErr (Storage r), obj, w1)
     \<and> (Path a \<in> set (Files w1) \<longleftrightarrow> Path a \<in> set (Files w))
     \<and> Locks w1 = Locks w"
  using assms
  by (auto simp: garbageCollect_def Storage_RemoveAllButCurrent_def emit_def Let_def
      split: option.splits)

lemma garbageCollect_none:
  assumes "Time_IsZero (DeletionTimestamp obj)" and "GetArtifact obj = None"
  shows "garbageCollect r obj w = (None, obj, w)"
  using assms by (simp add: garbageCollect_def)

lemma reconcileStorage_absent_object:
  assumes "Time_IsZero (DeletionTimestamp obj)"
    and "GetArtifact obj = None \<or> (\<exists>a. GetArtifact obj = Some a \<and> Path a \<notin> set (Files w))"
  shows "fst (reconcileStorage r obj w) = (\<lparr>Requeue = True, RequeueAfter = 0\<rparr>, None)
     \<and> fst (snd (reconcileStorage r obj w)) =
         conditions_MarkTrue
           (if GetArtifact obj = None then obj
            else obj\<lparr>Status_Artifact := None, Status_URL := []\<rparr>)
           ArtifactUnavailableCondition ''NoArtifact'' ''No artifact for resource in storage''"
proof (cases "GetArtifact obj")
  case None
  note gc = garbageCollect_none [OF assms(1) None]
  show ?thesis
    using None
    by (simp add: reconcileStorage_def gc verifyArtifact_def)
next
  case (Some a)
  with assms(2) have absent: "Path a \<notin> set (Files w)" by simp
  obtain w1 where gc: "garbageCollect r obj w = (RemoveAllButCurrentErr (Storage r), obj, w1)"
    and f: "Path a \<in> set (Files w1) \<longleftrightarrow> Path a \<in> set (Files w)"
    using garbageCollect_retain [OF assms(1) Some] by blast
  have cleared: "GetArtifact (obj\<lparr>Status_Artifact := None, Status_URL := []\<rparr>) = None"
    by (simp add: GetArtifact_def)
  show ?thesis
    using Some absent f
    by (simp add: reconcileStorage_def gc verifyArtifact_def Storage_ArtifactExist_def cleared)
qed

lemma reconcileStorage_absent:
  assumes "Time_IsZero (DeletionTimestamp obj)"
    and "GetArtifact obj = None \<or> (\<exists>a. GetArtifact obj = Some a \<and> Path a \<notin> set (Files w))"
  shows "fst (reconcileStorage r obj w) = (\<lparr>Requeue = True, RequeueAfter = 0\<rparr>, None)
     \<and> GetArtifact (fst (snd (reconcileStorage r obj w))) = None
     \<and> conditions_IsTrue (fst (snd (reconcileStorage r obj w))) ArtifactUnavailableCondition"
  using reconcileStorage_absent_object [OF assms, of r]
  by (auto simp: GetArtifact_def Status_Artifact_MarkTrue IsTrue_MarkTrue)

lemma reconcileStorage_present:
  assumes "Time_IsZero (DeletionTimestamp obj)"
    and "GetArtifact obj = Some a" and "Path a \<in> set (Files w)"
  shows "fst (reconcileStorage r obj w) =
           (\<lparr>Requeue = False, RequeueAfter = GetRequeueAfter obj\<rparr>, None)
     \<and> fst (snd (reconcileStorage r obj w)) =
           (conditions_Delete obj ArtifactUnavailableCondition)
             \<lparr>Status_Artifact := Some (Storage_SetArtifactURL (Storage r) a),
              Status_URL := SetHostname (Storage r) (Status_URL obj)\<rparr>"
proof -
  obtain w1 where gc: "garbageCollect r obj w = (RemoveAllButCurrentErr (Storage r), obj, w1)"
    and f: "Path a \<in> set (Files w1) \<longleftrightarrow> Path a \<in> set (Files w)"
    using garbageCollect_retain [OF assms(1,2)] by blast
  show ?thesis
    using assms(2,3) f
    by (simp add: reconcileStorage_def gc verifyArtifact_def Storage_ArtifactExist_def
        GetArtifact_def GetRequeueAfter_def conditions_Delete_def Let_def emit_def)
qed

lemma reconcileStorage_no_error: "snd (fst (reconcileStorage r obj w)) = None"
  by (simp add: reconcileStorage_def Let_def split: prod.splits option.splits)

lemma reconcile_after_storage:
  "reconcile r obj w =
     (let st = reconcileStorage r (conditions_MarkReconciling obj ''Reconciling'' []) w
      in if IsZero (fst (fst st)) then st
         else reconcileAfterStorage r (fst (snd st)) (snd (snd st)))"
  using reconcileStorage_no_error [of r "conditions_MarkReconciling obj ''Reconciling'' []" w]
  by (cases "reconcileStorage r (conditions_MarkReconciling obj ''Reconciling'' []) w")
    (auto simp: reconcile_def Let_def)

lemma reconcile_continues:
  assumes "snd (fst (reconcileStorage r (conditions_MarkReconciling obj ''Reconciling'' []) w)) = None"
    and "\<not> IsZero (fst (fst (reconcileStorage r (conditions_MarkReconciling obj ''Reconciling'' []) w)))"
  shows "reconcile r obj w =
     reconcileAfterStorage r
       (fst (snd (reconcileStorage r (conditions_MarkReconciling obj ''Reconciling'' []) w)))
       (snd (snd (reconcileStorage r (conditions_MarkReconciling obj ''Reconciling'' []) w)))"
  using assms
  by (cases "reconcileStorage r (conditions_MarkReconciling obj ''Reconciling'' []) w")
    (auto simp: reconcile_def)

text \<open>
  C6, as amended. In the storage stage of an object that is not under deletion: if no
  artifact is advertised, or the advertised one is not in the store (it is then
  cleared), artifact-unavailable is marked true and the stage returns the
  immediate-requeue directive without an error; that directive is not the zero
  directive, so the pass goes on with the stages that follow. If the advertised artifact
  is in the store, artifact-unavailable is cleared, the URL of the artifact and the URL
  of the status are refreshed, and the stage returns the steady-state interval.
\<close>

theorem reconcileStorage_directive:
  assumes "Time_IsZero (DeletionTimestamp obj)"
  shows "(GetArtifact obj = None \<or> (\<exists>a. GetArtifact obj = Some a \<and> Path a \<notin> set (Files w)) \<longrightarrow>
            fst (reconcileStorage r obj w) = (\<lparr>Requeue = True, RequeueAfter = 0\<rparr>, None)
          \<and> GetArtifact (fst (snd (reconcileStorage r obj w))) = None
          \<and> conditions_IsTrue (fst (snd (reconcileStorage r obj w))) ArtifactUnavailableCondition
          \<and> reconcile r obj w =
              reconcileAfterStorage r
                (fst (snd (reconcileStorage r (conditions_MarkReconciling obj ''Reconciling'' []) w)))
                (snd (snd (reconcileStorage r (conditions_MarkReconciling obj ''Reconciling'' []) w))))
       \<and> (\<forall>a. GetArtifact obj = Some a \<and> Path a \<in> set (Files w) \<longrightarrow>
            fst (reconcileStorage r obj w) =
              (\<lparr>Requeue = False, RequeueAfter = GetRequeueAfter obj\<rparr>, None)
          \<and> GetArtifact (fst (snd (reconcileStorage r obj w))) =
              Some (Storage_SetArtifactURL (Storage r) a)
          \<and> Status_URL (fst (snd (reconcileStorage r obj w))) =
              SetHostname (Storage r) (Status_URL obj)
          \<and> conditions_Get (fst (snd (reconcileStorage r obj w))) ArtifactUnavailableCondition
              = None)"
proof (intro conjI allI impI)
  assume absent:
    "GetArtifact obj = None \<or> (\<exists>a. GetArtifact obj = Some a \<and> Path a \<notin> set (Files w))"
  note st = reconcileStorage_absent [OF assms absent, of r]
  show "fst (reconcileStorage r obj w) = (\<lparr>Requeue = True, RequeueAfter = 0\<rparr>, None)"
    using st by simp
  show "GetArtifact (fst (snd (reconcileStorage r obj w))) = None"
    using st by simp
  show "conditions_IsTrue (fst (snd (reconcileStorage r obj w))) ArtifactUnavailableCondition"
    using st by simp
  have "fst (reconcileStorage r (conditions_MarkReconciling obj ''Reconciling'' []) w) =
      (\<lparr>Requeue = True, RequeueAfter = 0\<rparr>, None)"
    using reconcileStorage_absent [of "conditions_MarkReconciling obj ''Reconciling'' []" w r]
      assms absent
    by (simp add: MarkReconciling_frame)
  then show "reconcile r obj w =
      reconcileAfterStorage r
        (fst (snd (reconcileStorage r (conditions_MarkReconciling obj ''Reconciling'' []) w)))
        (snd (snd (reconcileStorage r (conditions_MarkReconciling obj ''Reconciling'' []) w)))"
    by (intro reconcile_continues) (simp_all add: IsZero_def Result_empty_def)
next
  fix a
  assume "GetArtifact obj = Some a \<and> Path a \<in> set (Files w)"
  then have a: "GetArtifact obj = Some a" and p: "Path a \<in> set (Files w)"
    by simp_all
  note st = reconcileStorage_present [OF assms a p, of r]
  show "fst (reconcileStorage r obj w) =
      (\<lparr>Requeue = False, RequeueAfter = GetRequeueAfter obj\<rparr>, None)"
    using st by simp
  show "GetArtifact (fst (snd (reconcileStorage r obj w))) =
      Some (Storage_SetArtifactURL (Storage r) a)"
    using st by (simp add: GetArtifact_def)
  show "Status_URL (fst (snd (reconcileStorage r obj w))) =
      SetHostname (Storage r) (Status_URL obj)"
    using st by (simp add: conditions_Delete_def)
  show "conditions_Get (fst (snd (reconcileStorage r obj w))) ArtifactUnavailableCondition = None"
    using st Get_Delete [of obj ArtifactUnavailableCondition ArtifactUnavailableCondition]
    by (simp add: conditions_Get_def)
qed

theorem reconcileStorage_directive_witness:
  "Time_IsZero (DeletionTimestamp ex_chart) \<and> GetArtifact ex_chart = None
   \<and> fst (reconcileStorage ex_reconciler ex_chart ex_world)
       = (\<lparr>Requeue = True, RequeueAfter = 0\<rparr>, None)
   \<and> conditions_IsTrue (fst (snd (reconcileStorage ex_reconciler ex_chart ex_world)))
        ArtifactUnavailableCondition
   \<and> Time_IsZero (DeletionTimestamp ex_chart_110)
   \<and> GetArtifact ex_chart_110 = Some ex_artifact_110
   \<and> Path ex_artifact_110 \<in> set (Files ex_world)
   \<and> fst (reconcileStorage ex_reconciler ex_chart_110 ex_world)
       = (\<lparr>Requeue = False, RequeueAfter = 60\<rparr>, None)
   \<and> GetArtifact (fst (snd (reconcileStorage ex_reconciler ex_chart_110 ex_world)))
       = Some (ex_artifact_110
           \<lparr>URL := ''http://source-controller/helmchart/default/podinfo/podinfo-1.1.0.tgz''\<rparr>)"
proof -
  have a: "Time_IsZero (DeletionTimestamp ex_chart)"
    by (simp add: ex_chart_def)
  have b: "Time_IsZero (DeletionTimestamp ex_chart_110)"
    by (simp add: ex_chart_110_def ex_chart_def)
  have c: "GetArtifact ex_chart = None" "GetArtifact ex_chart_110 = Some ex_artifact_110"
    "Path ex_artifact_110 \<in> set (Files ex_world)" "GetRequeueAfter ex_chart_110 = 60"
    "Storage_SetArtifactURL (Storage ex_reconciler) ex_artifact_110 = ex_artifact_110
           \<lparr>URL := ''http://source-controller/helmchart/default/podinfo/podinfo-1.1.0.tgz''\<rparr>"
    by (simp_all add: GetArtifact_def GetRequeueAfter_def Storage_SetArtifactURL_def
        ex_reconciler_def ex_storage_def ex_chart_def ex_chart_110_def ex_artifact_110_def
        ex_world_def)
  show ?thesis
    using a b c
      reconcileStorage_directive [OF a, of ex_world ex_reconciler]
      reconcileStorage_directive [OF b, of ex_world ex_reconciler]
    by simp
qed

text \<open>
  C6 as stated fails: for a chart that advertises nothing the storage stage asks for a
  requeue, and the same pass goes on to build and publish revision 1.2.0.
\<close>

theorem reconcileStorage_directive_counterexample:
  "GetArtifact ex_chart = None
   \<and> fst (reconcileStorage ex_reconciler
            (conditions_MarkReconciling ex_chart ''Reconciling'' []) ex_world)
       = (\<lparr>Requeue = True, RequeueAfter = 0\<rparr>, None)
   \<and> OpBuild \<in> set (Trace (snd (snd (reconcile ex_reconciler ex_chart ex_world))))
   \<and> map_option Revision (GetArtifact (fst (snd (reconcile ex_reconciler ex_chart ex_world))))
       = Some ''1.2.0''
   \<and> fst (reconcile ex_reconciler ex_chart ex_world)
       = (\<lparr>Requeue = False, RequeueAfter = 60\<rparr>, None)"
  by (simp add: reconcile_defs ex_reconciler_def ex_client_def ex_storage_def ex_builder_def
      ex_chart_def ex_world_def)

text \<open>
  C7, as amended. When the retain-current sweep fails, \<open>garbageCollect\<close> returns the
  error and emits a failure event, and the storage stage drops the error: the stage
  returns no error, and the directive and the object are those of a stage whose sweep
  succeeded. The pass stops after the stage only on the zero
  directive, and goes on with the later stages otherwise.
\<close>

theorem reconcileStorage_gc_failure_ignored:
  assumes "Time_IsZero (DeletionTimestamp obj)"
    and "GetArtifact obj = Some a"
    and "RemoveAllButCurrentErr (Storage r) = Some err"
  shows "fst (garbageCollect r obj w) = Some err
       \<and> Eventf EventSeverityError ''GarbageCollectionFailed''
            (''Garbage collection of old artifacts failed: '' @ Error err)
           \<in> set (Trace (snd (snd (reconcileStorage r obj w))))
       \<and> snd (fst (reconcileStorage r obj w)) = None
       \<and> fst (reconcileStorage r obj w) =
           fst (reconcileStorage (r\<lparr>Storage := (Storage r)\<lparr>RemoveAllButCurrentErr := None\<rparr>\<rparr>) obj w)
       \<and> fst (snd (reconcileStorage r obj w)) =
           fst (snd (reconcileStorage
             (r\<lparr>Storage := (Storage r)\<lparr>RemoveAllButCurrentErr := None\<rparr>\<rparr>) obj w))
       \<and> reconcile r obj w =
           (let st = reconcileStorage r (conditions_MarkReconciling obj ''Reconciling'' []) w
            in if IsZero (fst (fst st)) then st
               else reconcileAfterStorage r (fst (snd st)) (snd (snd st)))"
proof -
  let ?r' = "r\<lparr>Storage := (Storage r)\<lparr>RemoveAllButCurrentErr := None\<rparr>\<rparr>"
  have gc: "garbageCollect r obj w =
      (Some err, obj,
       emit (Eventf EventSeverityError ''GarbageCollectionFailed''
               (''Garbage collection of old artifacts failed: '' @ Error err))
         (emit (OpRemoveAllButCurrent a) w))"
    using assms by (simp add: garbageCollect_def Storage_RemoveAllButCurrent_def)
  have c1: "fst (garbageCollect r obj w) = Some err"
    by (simp add: gc)
  have tr: "Eventf EventSeverityError ''GarbageCollectionFailed''
        (''Garbage collection of old artifacts failed: '' @ Error err)
      \<in> set (Trace (snd (snd (reconcileStorage r obj w))))"
    using assms(2)
    by (simp add: reconcileStorage_def gc verifyArtifact_def Storage_ArtifactExist_def
        emit_def Let_def split: option.splits)
  have same: "fst (reconcileStorage r obj w) = fst (reconcileStorage ?r' obj w)
      \<and> fst (snd (reconcileStorage r obj w)) = fst (snd (reconcileStorage ?r' obj w))"
  proof (cases "Path a \<in> set (Files w)")
    case True
    show ?thesis
      using reconcileStorage_present [OF assms(1,2) True, of r]
        reconcileStorage_present [OF assms(1,2) True, of ?r']
      by (simp add: Storage_SetArtifactURL_def)
  next
    case False
    with assms(2) have absent:
      "GetArtifact obj = None \<or> (\<exists>a. GetArtifact obj = Some a \<and> Path a \<notin> set (Files w))"
      by simp
    show ?thesis
      using reconcileStorage_absent_object [OF assms(1) absent, of r]
        reconcileStorage_absent_object [OF assms(1) absent, of ?r']
      by simp
  qed
  have noerr: "snd (fst (reconcileStorage r obj w)) = None"
    using reconcileStorage_present [OF assms(1,2), of w r]
      reconcileStorage_absent [OF assms(1), of w r] assms(2)
    by (cases "Path a \<in> set (Files w)") simp_all
  show ?thesis
    using c1 tr same noerr reconcile_after_storage [of r obj w] by simp
qed

theorem reconcileStorage_gc_failure_ignored_witness:
  "Time_IsZero (DeletionTimestamp ex_chart_110)
   \<and> GetArtifact ex_chart_110 = Some ex_artifact_110
   \<and> RemoveAllButCurrentErr (Storage ex_reconciler_gc_fails) = Some (Err ''disk failure'')
   \<and> fst (garbageCollect ex_reconciler_gc_fails ex_chart_110 ex_world_110)
       = Some (Err ''disk failure'')
   \<and> snd (fst (reconcileStorage ex_reconciler_gc_fails ex_chart_110 ex_world_110)) = None"
proof -
  have a: "Time_IsZero (DeletionTimestamp ex_chart_110)"
    by (simp add: ex_chart_110_def ex_chart_def)
  have b: "GetArtifact ex_chart_110 = Some ex_artifact_110"
    by (simp add: GetArtifact_def ex_chart_110_def ex_chart_def)
  have c: "RemoveAllButCurrentErr (Storage ex_reconciler_gc_fails) = Some (Err ''disk failure'')"
    by (simp add: ex_reconciler_gc_fails_def)
  note t = reconcileStorage_gc_failure_ignored [OF a b c, of ex_world_110]
  have t1: "fst (garbageCollect ex_reconciler_gc_fails ex_chart_110 ex_world_110)
      = Some (Err ''disk failure'')"
    using t by blast
  have t2: "snd (fst (reconcileStorage ex_reconciler_gc_fails ex_chart_110 ex_world_110)) = None"
    using t by blast
  show ?thesis
    using a b c t1 t2 by simp
qed

text \<open>
  C7 as stated fails: the sweep fails, and the pass returns no error, builds, and moves
  the advertised artifact from revision 1.1.0 to 1.2.0.
\<close>

theorem reconcileStorage_gc_failure_counterexample:
  "fst (garbageCollect ex_reconciler_gc_fails
          (conditions_MarkReconciling ex_chart_110 ''Reconciling'' []) ex_world_110)
       = Some (Err ''disk failure'')
   \<and> fst (reconcile ex_reconciler_gc_fails ex_chart_110 ex_world_110)
       = (\<lparr>Requeue = False, RequeueAfter = 60\<rparr>, None)
   \<and> OpBuild \<in> set (Trace (snd (snd (reconcile ex_reconciler_gc_fails ex_chart_110 ex_world_110))))
   \<and> map_option Revision (GetArtifact ex_chart_110) = Some ''1.1.0''
   \<and> map_option Revision
        (GetArtifact (fst (snd (reconcile ex_reconciler_gc_fails ex_chart_110 ex_world_110))))
       = Some ''1.2.0''"
  by (simp add: reconcile_defs ex_reconciler_gc_fails_def ex_reconciler_def ex_client_def
      ex_storage_def ex_builder_def ex_chart_110_def ex_artifact_110_def ex_chart_def
      ex_world_110_def)

section \<open>The build stage\<close>

text \<open>
  The skip of the build stage: when the advertised revision is the version of the chart
  metadata just loaded and the generation is the observed one, \<open>reconcileChart\<close> loads the
  metadata and nothing else, leaves the candidate artifact and the chart path as they
  were, and returns the steady-state interval without an error.
\<close>

lemma reconcileChart_up_to_date:
  assumes "LoadMetadataRes build = Inr chartMeta"
    and "HasRevision (GetArtifact obj) (MetaVersion chartMeta)"
    and "Generation obj = Status_ObservedGeneration obj"
  shows "reconcileChart r obj build artifact result w =
           ((\<lparr>Requeue = False, RequeueAfter = GetRequeueAfter obj\<rparr>, None),
            artifact, result, emit OpLoadMetadata w)
       \<and> Files (snd (snd (snd (reconcileChart r obj build artifact result w)))) = Files w
       \<and> Locks (snd (snd (snd (reconcileChart r obj build artifact result w)))) = Locks w
       \<and> Trace (snd (snd (snd (reconcileChart r obj build artifact result w))))
           = Trace w @ [OpLoadMetadata]"
  using assms by (simp add: reconcileChart_def emit_def)

text \<open>
  C1. The claim: a pass over an object that is not under deletion, whose advertised
  revision is the version of the metadata just loaded and whose generation is the
  observed one, makes no store mutation and no condition change. The code at such an
  object, with a store that holds the advertised artifact and nothing to sweep: the
  directive of the skipped build stage is not the zero directive, so the pass goes on
  to the publish stage with the zero artifact and the empty chart path, and calls
  \<open>MkdirAll\<close>, \<open>Lock\<close> and \<open>CopyFromPath\<close> on them. When that copy fails the pass returns
  the error and leaves the reconciling condition true; when it succeeds the store gets a
  file at the empty path and the advertised artifact is replaced by the empty one.
\<close>

theorem reconcile_up_to_date_publishes_zero_artifact:
  "GetRes (Client ex_reconciler_open_fails) (''default'', ''podinfo'') = Inr ex_chart_120
   \<and> Time_IsZero (DeletionTimestamp ex_chart_120)
   \<and> LoadMetadataRes (newChartBuilder ex_reconciler_open_fails)
       = Inr \<lparr>MetaName = ''podinfo'', MetaVersion = ''1.2.0''\<rparr>
   \<and> HasRevision (GetArtifact ex_chart_120) ''1.2.0''
   \<and> Generation ex_chart_120 = Status_ObservedGeneration ex_chart_120
   \<and> passTrace (Reconcile ex_reconciler_open_fails (''default'', ''podinfo'') ex_world_current)
       = [OpRemoveAllButCurrent ex_artifact_120,
          Eventf EventSeverityInfo ''GarbageCollectionSucceeded''
            ''Garbage collected old artifacts'',
          OpArtifactExist ex_artifact_120,
          OpMkdirTemp ''default-podinfo-'',
          OpLoadMetadata,
          OpMkdirAll zeroArtifact,
          OpLock zeroArtifact,
          OpCopyFromPath zeroArtifact [],
          Eventf EventSeverityError ''StorageOperationFailed''
            ''Failed to write Helm repository index to storage: open : no such file or directory'',
          OpUnlock zeroArtifact]
   \<and> passError (Reconcile ex_reconciler_open_fails (''default'', ''podinfo'') ex_world_current)
       = Some (Err ''open : no such file or directory'')
   \<and> Status_Conditions ex_chart_120
       = [\<lparr>Type = ReadyCondition, Status = ConditionTrue, Reason = ''Succeeded'',
            Message = ''Stored artifact for revision 1.2.0''\<rparr>]
   \<and> passConditions (Reconcile ex_reconciler_open_fails (''default'', ''podinfo'')
        ex_world_current)
       = [\<lparr>Type = ReadyCondition, Status = ConditionTrue, Reason = ''Succeeded'',
            Message = ''Stored artifact for revision 1.2.0''\<rparr>,
          \<lparr>Type = ReconcilingCondition, Status = ConditionTrue, Reason = ''Reconciling'',
            Message = []\<rparr>]
   \<and> passFiles (Reconcile (ex_reconciler_get ex_chart_120) (''default'', ''podinfo'')
        ex_world_current)
       = Some [''helmchart/default/podinfo/podinfo-1.2.0.tgz'', []]
   \<and> map_option Status_Artifact
        (passObject (Reconcile (ex_reconciler_get ex_chart_120) (''default'', ''podinfo'')
           ex_world_current))
       = Some (Some (zeroArtifact\<lparr>Checksum := ''c0ffee''\<rparr>))"
proof -
  have input:
    "GetRes (Client ex_reconciler_open_fails) (''default'', ''podinfo'') = Inr ex_chart_120
      \<and> Time_IsZero (DeletionTimestamp ex_chart_120)
      \<and> LoadMetadataRes (newChartBuilder ex_reconciler_open_fails)
          = Inr \<lparr>MetaName = ''podinfo'', MetaVersion = ''1.2.0''\<rparr>
      \<and> HasRevision (GetArtifact ex_chart_120) ''1.2.0''
      \<and> Generation ex_chart_120 = Status_ObservedGeneration ex_chart_120"
    by (simp add: GetArtifact_def ex_reconciler_open_fails_def ex_reconciler_get_def
        ex_reconciler_def ex_client_def ex_builder_def ex_chart_120_def ex_artifact_120_def
        ex_chart_def)
  have copy_fails:
    "passTrace (Reconcile ex_reconciler_open_fails (''default'', ''podinfo'') ex_world_current)
          = [OpRemoveAllButCurrent ex_artifact_120,
             Eventf EventSeverityInfo ''GarbageCollectionSucceeded''
               ''Garbage collected old artifacts'',
             OpArtifactExist ex_artifact_120,
             OpMkdirTemp ''default-podinfo-'',
             OpLoadMetadata,
             OpMkdirAll zeroArtifact,
             OpLock zeroArtifact,
             OpCopyFromPath zeroArtifact [],
             Eventf EventSeverityError ''StorageOperationFailed''
               ''Failed to write Helm repository index to storage: open : no such file or directory'',
             OpUnlock zeroArtifact]
      \<and> passError (Reconcile ex_reconciler_open_fails (''default'', ''podinfo'') ex_world_current)
          = Some (Err ''open : no such file or directory'')
      \<and> Status_Conditions ex_chart_120
          = [\<lparr>Type = ReadyCondition, Status = ConditionTrue, Reason = ''Succeeded'',
               Message = ''Stored artifact for revision 1.2.0''\<rparr>]
      \<and> passConditions (Reconcile ex_reconciler_open_fails (''default'', ''podinfo'')
           ex_world_current)
          = [\<lparr>Type = ReadyCondition, Status = ConditionTrue, Reason = ''Succeeded'',
               Message = ''Stored artifact for revision 1.2.0''\<rparr>,
             \<lparr>Type = ReconcilingCondition, Status = ConditionTrue, Reason = ''Reconciling'',
               Message = []\<rparr>]"
    by code_simp
  have copy_succeeds:
    "passFiles (Reconcile (ex_reconciler_get ex_chart_120) (''default'', ''podinfo'')
           ex_world_current)
          = Some [''helmchart/default/podinfo/podinfo-1.2.0.tgz'', []]
      \<and> map_option Status_Artifact
           (passObject (Reconcile (ex_reconciler_get ex_chart_120) (''default'', ''podinfo'')
              ex_world_current))
          = Some (Some (zeroArtifact\<lparr>Checksum := ''c0ffee''\<rparr>))"
    by code_simp
  from input copy_fails copy_succeeds show ?thesis
    by (intro conjI) (elim conjE, assumption)+
qed

section \<open>The publish stage\<close>

lemma restoreReady_Artifact: "Status_Artifact (restoreReady obj a) = Status_Artifact obj"
  by (simp add: restoreReady_def Let_def Status_Artifact_MarkTrue Status_Artifact_Delete
      GetArtifact_def)

lemma restoreReady_Ready:
  "conditions_Get (restoreReady obj a) ReadyCondition =
     (if HasRevision (GetArtifact obj) (Revision a)
      then Some \<lparr>Type = ReadyCondition, Status = ConditionTrue, Reason = SucceededReason,
                 Message = ''Stored artifact for revision '' @ [CHR 0x27] @ Revision a @ [CHR 0x27]\<rparr>
      else conditions_Get obj ReadyCondition)"
  by (simp add: restoreReady_def Let_def Get_MarkTrue Get_Delete GetArtifact_def
      Status_Artifact_Delete)



lemma reconcileArtifact_copy_fails_eq:
  assumes "MkdirAllErr (Storage r) = None" and "LockErr (Storage r) = None"
    and "CopyFromPathRes (Storage r) = Inl err"
  shows "reconcileArtifact r obj artifact path w =
     ((Result_empty, Some err), restoreReady obj artifact,
      unlock artifact
        (emit (Eventf EventSeverityError StorageOperationFailedReason
                 (''Failed to write Helm repository index to storage: '' @ Error err))
           ((emit (OpCopyFromPath artifact path) (emit (OpLock artifact) (emit (OpMkdirAll artifact) w)))
              \<lparr>Locks := Path artifact # Locks w\<rparr>)))"
  using assms
  by (simp add: reconcileArtifact_def Storage_MkdirAll_def Storage_Lock_def
      Storage_CopyFromPath_def emit_def Let_def)

lemma publishArtifact_shape:
  "\<exists>res obj1 w1. publishArtifact r obj a w = ((res, None), obj1, w1)
     \<and> Status_Artifact obj1 = Some a
     \<and> Status_Conditions obj1 = Status_Conditions obj"
  by (cases "SymlinkRes (Storage r)")
    (simp add: publishArtifact_def Storage_Symlink_def Let_def)

lemma reconcileArtifact_shape:
  "\<exists>res objX aX w'.
      reconcileArtifact r obj artifact path w = (res, restoreReady objX aX, w')
    \<and> Revision aX = Revision artifact
    \<and> Status_Conditions objX = Status_Conditions obj
    \<and> (snd res \<noteq> None \<and> objX = obj \<or> snd res = None \<and> Status_Artifact objX = Some aX)"
proof (cases "MkdirAllErr (Storage r)")
  case (Some e)
  then show ?thesis
    by (simp add: reconcileArtifact_def Storage_MkdirAll_def) blast
next
  case None
  note mk = this
  show ?thesis
  proof (cases "LockErr (Storage r)")
    case (Some e)
    with mk show ?thesis
      by (simp add: reconcileArtifact_def Storage_MkdirAll_def Storage_Lock_def Let_def) blast
  next
    case None
    note lk = this
    show ?thesis
    proof (cases "CopyFromPathRes (Storage r)")
      case (Inl e)
      show ?thesis
        using reconcileArtifact_copy_fails_eq [OF mk lk Inl, of obj artifact path w]
        by simp blast
    next
      case (Inr checksum)
      define w3 where "w3 = snd (Storage_CopyFromPath (Storage r) artifact path
        (snd (Storage_Lock (Storage r) artifact (snd (Storage_MkdirAll (Storage r) artifact w)))))"
      obtain res obj1 w4 where
        p: "publishArtifact r obj (artifact\<lparr>Checksum := checksum\<rparr>) w3 = ((res, None), obj1, w4)"
        and a: "Status_Artifact obj1 = Some (artifact\<lparr>Checksum := checksum\<rparr>)"
        and c: "Status_Conditions obj1 = Status_Conditions obj"
        using publishArtifact_shape by blast
      have "reconcileArtifact r obj artifact path w =
          ((res, None), restoreReady obj1 (artifact\<lparr>Checksum := checksum\<rparr>), unlock artifact w4)"
        using mk lk Inr p
        by (simp add: reconcileArtifact_def Storage_MkdirAll_def Storage_Lock_def
            Storage_CopyFromPath_def Let_def w3_def)
      with a c show ?thesis
        by (intro exI [of _ "(res, None)"] exI [of _ obj1]
            exI [of _ "artifact\<lparr>Checksum := checksum\<rparr>"] exI [of _ "unlock artifact w4"])
          simp
    qed
  qed
qed








text \<open>
  C5, as amended. The publish stage marks the ready condition true exactly when, at its
  exit, the advertised artifact has the revision of the freshly built one, whether or
  not the publication succeeded; otherwise it leaves the ready condition as it was.
  After a successful publication the revisions are equal; after a failed one the
  advertised artifact is the one from before the stage.
\<close>

theorem reconcileArtifact_ready:
  "(HasRevision (GetArtifact (fst (snd (reconcileArtifact r obj artifact path w))))
        (Revision artifact)
      \<longrightarrow> conditions_Get (fst (snd (reconcileArtifact r obj artifact path w))) ReadyCondition =
            Some \<lparr>Type = ReadyCondition, Status = ConditionTrue, Reason = SucceededReason,
                  Message = ''Stored artifact for revision '' @ [CHR 0x27] @ Revision artifact
                    @ [CHR 0x27]\<rparr>)
   \<and> (\<not> HasRevision (GetArtifact (fst (snd (reconcileArtifact r obj artifact path w))))
          (Revision artifact)
      \<longrightarrow> conditions_Get (fst (snd (reconcileArtifact r obj artifact path w))) ReadyCondition =
            conditions_Get obj ReadyCondition)
   \<and> (snd (fst (reconcileArtifact r obj artifact path w)) = None
      \<longrightarrow> HasRevision (GetArtifact (fst (snd (reconcileArtifact r obj artifact path w))))
            (Revision artifact))
   \<and> (snd (fst (reconcileArtifact r obj artifact path w)) \<noteq> None
      \<longrightarrow> GetArtifact (fst (snd (reconcileArtifact r obj artifact path w))) = GetArtifact obj)"
proof -
  obtain res objX aX w' where
    eq: "reconcileArtifact r obj artifact path w = (res, restoreReady objX aX, w')"
    and rev: "Revision aX = Revision artifact"
    and conds: "Status_Conditions objX = Status_Conditions obj"
    and alt: "snd res \<noteq> None \<and> objX = obj \<or> snd res = None \<and> Status_Artifact objX = Some aX"
    using reconcileArtifact_shape by blast
  have art: "\<And>x a. GetArtifact (restoreReady x a) = GetArtifact x"
    by (simp add: GetArtifact_def restoreReady_Artifact)
  have rdy: "conditions_Get (restoreReady objX aX) ReadyCondition =
     (if HasRevision (GetArtifact objX) (Revision artifact)
      then Some \<lparr>Type = ReadyCondition, Status = ConditionTrue, Reason = SucceededReason,
                 Message = ''Stored artifact for revision '' @ [CHR 0x27] @ Revision artifact
                   @ [CHR 0x27]\<rparr>
      else conditions_Get obj ReadyCondition)"
    using restoreReady_Ready [of objX aX] conditions_Get_cong [OF conds, of ReadyCondition]
    by (simp add: rev)
  from alt show ?thesis
  proof
    assume "snd res \<noteq> None \<and> objX = obj"
    then show ?thesis
      using rdy by (auto simp: eq art)
  next
    assume s: "snd res = None \<and> Status_Artifact objX = Some aX"
    then have "HasRevision (GetArtifact objX) (Revision artifact)"
      using rev by (simp add: GetArtifact_def)
    then show ?thesis
      using rdy s by (auto simp: eq art)
  qed
qed

theorem reconcileArtifact_ready_witness:
  "snd (fst (reconcileArtifact ex_reconciler ex_chart_110 ex_built_120
        ''/tmp/podinfo-1.2.0.tgz'' ex_world)) = None
   \<and> conditions_IsTrue (fst (snd (reconcileArtifact ex_reconciler ex_chart_110 ex_built_120
        ''/tmp/podinfo-1.2.0.tgz'' ex_world))) ReadyCondition
   \<and> \<not> HasRevision (GetArtifact (fst (snd (reconcileArtifact ex_reconciler_mkdir_fails
        ex_chart_outdated ex_built_120 ''/tmp/podinfo-1.2.0.tgz'' ex_world)))) ''1.2.0''
   \<and> conditions_Get (fst (snd (reconcileArtifact ex_reconciler_mkdir_fails
        ex_chart_outdated ex_built_120 ''/tmp/podinfo-1.2.0.tgz'' ex_world))) ReadyCondition
       = conditions_Get ex_chart_outdated ReadyCondition"
proof -
  have ok: "snd (fst (reconcileArtifact ex_reconciler ex_chart_110 ex_built_120
        ''/tmp/podinfo-1.2.0.tgz'' ex_world)) = None"
    by (simp add: publish_defs ex_reconciler_def ex_storage_def ex_chart_110_def
        ex_artifact_110_def ex_built_120_def ex_artifact_120_def ex_chart_def ex_world_def)
  have rev: "Revision ex_built_120 = ''1.2.0''"
    by (simp add: ex_built_120_def ex_artifact_120_def)
  have mismatch: "\<not> HasRevision (GetArtifact (fst (snd (reconcileArtifact
        ex_reconciler_mkdir_fails ex_chart_outdated ex_built_120
        ''/tmp/podinfo-1.2.0.tgz'' ex_world)))) ''1.2.0''"
    by (simp add: publish_defs ex_reconciler_mkdir_fails_def ex_reconciler_def ex_storage_def
        ex_chart_outdated_def ex_chart_110_def ex_artifact_110_def ex_built_120_def
        ex_artifact_120_def ex_chart_def ex_world_def)
  show ?thesis
    using ok rev mismatch
      reconcileArtifact_ready [of ex_reconciler ex_chart_110 ex_built_120
        "''/tmp/podinfo-1.2.0.tgz''" ex_world]
      reconcileArtifact_ready [of ex_reconciler_mkdir_fails ex_chart_outdated ex_built_120
        "''/tmp/podinfo-1.2.0.tgz''" ex_world]
    by (simp add: conditions_IsTrue_def)
qed

text \<open>
  C5 as stated fails: the chart was edited (its generation is not the observed one), the
  rebuilt artifact has the advertised revision 1.2.0, the artifact directory cannot be
  created, and the stage returns the error and marks the ready condition true.
\<close>

theorem reconcileArtifact_ready_counterexample:
  "snd (fst (reconcileArtifact ex_reconciler_mkdir_fails ex_chart_120_edited ex_built_120
        ''/tmp/podinfo-1.2.0.tgz'' ex_world_120))
       = Some (Err ''failed to create artifact directory: read-only file system'')
   \<and> Status_Artifact (fst (snd (reconcileArtifact ex_reconciler_mkdir_fails
        ex_chart_120_edited ex_built_120 ''/tmp/podinfo-1.2.0.tgz'' ex_world_120)))
       = Status_Artifact ex_chart_120_edited
   \<and> \<not> conditions_IsTrue ex_chart_120_edited ReadyCondition
   \<and> conditions_IsTrue (fst (snd (reconcileArtifact ex_reconciler_mkdir_fails
        ex_chart_120_edited ex_built_120 ''/tmp/podinfo-1.2.0.tgz'' ex_world_120))) ReadyCondition"
  by (simp add: publish_defs ex_reconciler_mkdir_fails_def ex_reconciler_def ex_storage_def
      ex_chart_120_edited_def ex_chart_120_def ex_artifact_120_def ex_built_120_def
      ex_chart_def ex_world_120_def)

section \<open>Change propagation\<close>

lemma appendRequests_map: "appendRequests items reqs = reqs @ map ObjectKeyFromObject items"
  by (induction items arbitrary: reqs) simp_all

text \<open>
  C9. When the accessor's \<open>List\<close> fails, each of the three change handlers returns the
  empty request set: nothing is enqueued, and the handler has no way to return the error.
\<close>

theorem requests_list_fails:
  assumes "ListErr (Client r) = Some err"
  shows "requestsForHelmRepositoryChange r (HelmRepositoryObject repo) = Inr []
       \<and> requestsForGitRepositoryChange r (GitRepositoryObject repo) = Inr []
       \<and> requestsForBucketChange r (BucketObject repo) = Inr []"
  using assms
  by (simp add: requestsForHelmRepositoryChange_def requestsForGitRepositoryChange_def
      requestsForBucketChange_def Client_List_def)

theorem requests_list_fails_witness:
  "ListErr (Client ex_reconciler_list_fails) = Some (Err ''timeout'')
   \<and> SourceArtifact ex_source \<noteq> None
   \<and> requestsForHelmRepositoryChange ex_reconciler_list_fails (HelmRepositoryObject ex_source)
       = Inr []
   \<and> requestsForGitRepositoryChange ex_reconciler_list_fails (GitRepositoryObject ex_source)
       = Inr []
   \<and> requestsForBucketChange ex_reconciler_list_fails (BucketObject ex_source) = Inr []"
proof -
  have a: "ListErr (Client ex_reconciler_list_fails) = Some (Err ''timeout'')"
    by (simp add: ex_reconciler_list_fails_def)
  show ?thesis
    using a requests_list_fails [OF a, of ex_source]
    by (simp add: ex_source_def)
qed

text \<open>
  C8, as amended. Each of the three change handlers returns no request when the source
  has no artifact, whatever the accessor would list. When the source has an artifact and
  the listing succeeds, the handler returns, in the order of the listing, exactly one request
  for each chart that the index files under the key made of the source's kind and name.
\<close>

theorem requests_for_source_change:
  "(SourceArtifact src = None \<longrightarrow>
      requestsForHelmRepositoryChange r (HelmRepositoryObject src) = Inr []
    \<and> requestsForGitRepositoryChange r (GitRepositoryObject src) = Inr []
    \<and> requestsForBucketChange r (BucketObject src) = Inr [])
   \<and> (SourceArtifact src \<noteq> None \<and> ListErr (Client r) = None \<longrightarrow>
      requestsForHelmRepositoryChange r (HelmRepositoryObject src) =
        Inr (map ObjectKeyFromObject
               (filter (indexedUnder (HelmRepositoryKind @ ''/'' @ SourceName src))
                  (Charts (Client r))))
    \<and> requestsForGitRepositoryChange r (GitRepositoryObject src) =
        Inr (map ObjectKeyFromObject
               (filter (indexedUnder (GitRepositoryKind @ ''/'' @ SourceName src))
                  (Charts (Client r))))
    \<and> requestsForBucketChange r (BucketObject src) =
        Inr (map ObjectKeyFromObject
               (filter (indexedUnder (BucketKind @ ''/'' @ SourceName src))
                  (Charts (Client r)))))"
  by (simp add: requestsForHelmRepositoryChange_def requestsForGitRepositoryChange_def
      requestsForBucketChange_def Client_List_def appendRequests_map)

text \<open>
  Of the four example charts two refer to the chart repository \<open>stable\<close>, one to a git
  repository and one to a bucket of that name.
\<close>

theorem requests_for_source_change_witness:
  "SourceArtifact ex_source \<noteq> None \<and> ListErr (Client ex_reconciler) = None
   \<and> requestsForHelmRepositoryChange ex_reconciler (HelmRepositoryObject ex_source)
       = Inr [(''default'', ''podinfo''), (''apps'', ''redis'')]
   \<and> requestsForGitRepositoryChange ex_reconciler (GitRepositoryObject ex_source)
       = Inr [(''default'', ''nginx'')]
   \<and> requestsForBucketChange ex_reconciler (BucketObject ex_source)
       = Inr [(''default'', ''minio'')]
   \<and> SourceArtifact (ex_source\<lparr>SourceArtifact := None\<rparr>) = None
   \<and> requestsForBucketChange ex_reconciler (BucketObject (ex_source\<lparr>SourceArtifact := None\<rparr>))
       = Inr []"
proof -
  have a: "ListErr (Client ex_reconciler) = None"
    by (simp add: ex_reconciler_def ex_client_def)
  have c: "Charts (Client ex_reconciler) =
      [ex_chart, ex_chart_nginx, ex_chart_redis, ex_chart_minio]"
    by (simp add: ex_reconciler_def ex_client_def)
  show ?thesis
    using a requests_for_source_change [of ex_source ex_reconciler]
      requests_for_source_change [of "ex_source\<lparr>SourceArtifact := None\<rparr>" ex_reconciler]
    by (simp add: c ex_source_def indexedUnder_def indexHelmChartBySource_def
        ObjectKeyFromObject_def ex_chart_def ex_chart_nginx_def ex_chart_redis_def
        ex_chart_minio_def HelmRepositoryKind_def GitRepositoryKind_def BucketKind_def)
qed

text \<open>
  C8 as stated fails when the listing fails: the source has an artifact, two charts are
  filed under its key, and the handler returns no request.
\<close>

theorem requests_for_source_change_counterexample:
  "SourceArtifact ex_source \<noteq> None
   \<and> ListErr (Client ex_reconciler_list_fails) = Some (Err ''timeout'')
   \<and> filter (indexedUnder (HelmRepositoryKind @ ''/'' @ SourceName ex_source))
        (Charts (Client ex_reconciler_list_fails)) = [ex_chart, ex_chart_redis]
   \<and> requestsForHelmRepositoryChange ex_reconciler_list_fails (HelmRepositoryObject ex_source)
       = Inr []"
  by (simp add: requestsForHelmRepositoryChange_def Client_List_def indexedUnder_def
      indexHelmChartBySource_def HelmRepositoryKind_def ex_reconciler_list_fails_def
      ex_reconciler_def ex_client_def ex_source_def ex_chart_def ex_chart_nginx_def
      ex_chart_redis_def ex_chart_minio_def)

end
